theory Spec2Isabelle
  imports Complex_Main "HOL-Library.Word" "HOL-Library.Monad_Syntax"
begin

section \<open>JavaScript values\<close>

subsection \<open>Strings\<close>

text \<open>
  A JavaScript string is a sequence of 16-bit code units; \<open>slice\<close>, \<open>includes\<close>
  and \<open>length\<close> count code units. The Arabic literals of the source lie in the Basic
  Multilingual Plane, one code unit per letter, and are written below by their code units.
\<close>

type_synonym code_unit = "16 word"
type_synonym jsstring = "code_unit list"

definition ascii :: "string \<Rightarrow> jsstring" where
  "ascii s = map of_char s"

fun startsWith :: "jsstring \<Rightarrow> jsstring \<Rightarrow> bool" where
  "startsWith s [] = True"
| "startsWith [] (k # ks) = False"
| "startsWith (c # cs) (k # ks) = (c = k \<and> startsWith cs ks)"

text \<open>\<^verbatim>\<open>s.includes(k)\<close>: \<open>k\<close> occurs in \<open>s\<close> as a contiguous run.\<close>

fun includes_str :: "jsstring \<Rightarrow> jsstring \<Rightarrow> bool" where
  "includes_str [] k = (k = [])"
| "includes_str (c # cs) k = (startsWith (c # cs) k \<or> includes_str cs k)"

text \<open>\<^verbatim>\<open>xs.join(sep)\<close> on an array of strings.\<close>

fun join :: "jsstring \<Rightarrow> jsstring list \<Rightarrow> jsstring" where
  "join sep [] = []"
| "join sep [x] = x"
| "join sep (x # y # ys) = x @ sep @ join sep (y # ys)"

text \<open>
  \<^verbatim>\<open>a ?? d\<close>. A field that is \<^verbatim>\<open>null\<close> and a field that is \<^verbatim>\<open>undefined\<close> are both
  \<open>None\<close>: every operator the source applies to an optional field (\<^verbatim>\<open>??\<close>, \<^verbatim>\<open>?.\<close>,
  truthiness) treats the two alike.
\<close>

definition nullish :: "'a option \<Rightarrow> 'a \<Rightarrow> 'a" where
  "nullish a d = (case a of None \<Rightarrow> d | Some v \<Rightarrow> v)"

text \<open>Truthiness of an optional string: present and not empty.\<close>

definition truthy_str :: "jsstring option \<Rightarrow> bool" where
  "truthy_str a = (case a of None \<Rightarrow> False | Some s \<Rightarrow> s \<noteq> [])"

text \<open>\<^verbatim>\<open>xs?.length\<close> as a condition: the array is present and not empty.\<close>

definition has_length :: "'a list option \<Rightarrow> bool" where
  "has_length a = (case a of None \<Rightarrow> False | Some xs \<Rightarrow> xs \<noteq> [])"

text \<open>
  White space as \<^verbatim>\<open>String.prototype.trim\<close> and the regular expression class \<^verbatim>\<open>\s\<close>
  define it (ECMAScript WhiteSpace and LineTerminator).
\<close>

definition is_js_space :: "code_unit \<Rightarrow> bool" where
  "is_js_space c =
     (c \<in> set [0x9, 0xA, 0xB, 0xC, 0xD, 0x20, 0xA0, 0x1680, 0x2028, 0x2029, 0x202F, 0x205F,
                0x3000, 0xFEFF]
      \<or> (0x2000 \<le> c \<and> c \<le> 0x200A))"

definition trim :: "jsstring \<Rightarrow> jsstring" where
  "trim s = rev (dropWhile is_js_space (rev (dropWhile is_js_space s)))"

subsection \<open>Numbers\<close>

text \<open>
  The numeric fields of the source (\<^verbatim>\<open>reminder_minutes_before\<close>, \<^verbatim>\<open>every\<close>, the HTTP
  status, a count of items) are modelled as \<open>int\<close>: the model covers the integer values
  of a JavaScript number. Such a number is falsy exactly when it is zero. A template
  literal prints a safe integer (one of magnitude below \<open>2\<^sup>5\<^sup>3\<close>) by its decimal digits,
  with a minus sign when negative; the text of a number outside that range (rounded
  digits, exponent notation) is the engine's, see \<open>Number_toString\<close> below.
\<close>

fun digits_of :: "nat \<Rightarrow> jsstring" where
  "digits_of n =
     (if n < 10 then [of_nat (48 + n)] else digits_of (n div 10) @ [of_nat (48 + n mod 10)])"

declare digits_of.simps [simp del]

subsection \<open>JSON values\<close>

datatype json =
    JNull
  | JBool bool
  | JNum int
  | JStr jsstring
  | JArr "json list"
  | JObj "(jsstring \<times> json) list"

subsection \<open>The built-ins of the runtime\<close>

text \<open>
  \<^verbatim>\<open>String.prototype.toLowerCase\<close>, the \<^verbatim>\<open>Date\<close> constructor applied to a string,
  \<^verbatim>\<open>Date.prototype.toISOString\<close> and \<^verbatim>\<open>JSON.parse\<close> belong to the JavaScript engine, not
  to the repository. The program is modelled over any implementation of them:
  \<^item> \<open>Date_parse s\<close> is the time value (milliseconds since the epoch) of
    \<^verbatim>\<open>new Date(s)\<close>, or \<open>None\<close> for an invalid date, whose \<^verbatim>\<open>getTime()\<close> is \<^verbatim>\<open>NaN\<close>;
  \<^item> \<open>JSON_parse s\<close> is the parsed value, or \<open>Inl m\<close> when \<^verbatim>\<open>JSON.parse\<close> throws a
    \<^verbatim>\<open>SyntaxError\<close> with message \<open>m\<close>;
  \<^item> \<open>large_number_text n\<close> is the text the engine prints for a number that is not a
    safe integer.
\<close>

record js_runtime =
  toLowerCase :: "jsstring \<Rightarrow> jsstring"
  Date_parse :: "jsstring \<Rightarrow> int option"
  toISOString :: "int \<Rightarrow> jsstring"
  JSON_parse :: "jsstring \<Rightarrow> jsstring + json"
  large_number_text :: "int \<Rightarrow> jsstring"

text \<open>A number in a template literal.\<close>

definition Number_toString :: "js_runtime \<Rightarrow> int \<Rightarrow> jsstring" where
  "Number_toString rt n =
     (if - (2 ^ 53) < n \<and> n < 2 ^ 53
      then (if n < 0 then ascii ''-'' @ digits_of (nat (- n)) else digits_of (nat n))
      else large_number_text rt n)"

section \<open>The appointment normalizer\<close>

subsection \<open>Data\<close>

text \<open>The type \<^verbatim>\<open>AtlasAppointment\<close>: every field is optional.\<close>

record Recurrence =
  pattern :: "jsstring option"
  every :: "int option"
  days_of_week :: "jsstring list option"

record AtlasAppointment =
  raw_type :: "jsstring option"
  raw_title :: "jsstring option"
  raw_date :: "jsstring option"
  raw_time :: "jsstring option"
  raw_end_time :: "jsstring option"
  raw_location :: "jsstring option"
  raw_person :: "jsstring option"
  raw_actions_before :: "jsstring list option"
  raw_actions_after :: "jsstring list option"
  raw_tags :: "jsstring list option"
  raw_reminder_minutes_before :: "int option"
  raw_recurrence :: "Recurrence option"
  raw_notes :: "jsstring option"

datatype Priority = Low | Medium | High | Critical

datatype Status = Scheduled | Done | Canceled

text \<open>The object \<^verbatim>\<open>convertAtlasToAppointment\<close> returns (an \<^verbatim>\<open>Appointment\<close> without id).\<close>

record Appointment =
  title :: jsstring
  description :: "jsstring option"
  tag :: "jsstring option"
  start_at :: jsstring
  end_at :: "jsstring option"
  priority :: Priority
  status :: Status
  location :: "jsstring option"
  reminder_minutes_before :: "int option"

subsection \<open>Literals of the normalizer\<close>

text \<open>
  The six medical keywords (hospital, clinic, analysis, medicine, review, doctor), in the
  order of the array in \<^verbatim>\<open>isHospitalAppointment\<close>.
\<close>

definition kw_hospital :: jsstring where
  "kw_hospital =
     [0x645, 0x633, 0x62A, 0x634, 0x641, 0x649]"
definition kw_clinic :: jsstring where
  "kw_clinic =
     [0x639, 0x64A, 0x627, 0x62F, 0x629]"
definition kw_analysis :: jsstring where
  "kw_analysis =
     [0x62A, 0x62D, 0x644, 0x64A, 0x644]"
definition kw_medicine :: jsstring where
  "kw_medicine =
     [0x62F, 0x648, 0x627, 0x621]"
definition kw_review :: jsstring where
  "kw_review =
     [0x645, 0x631, 0x627, 0x62C, 0x639, 0x629]"
definition kw_doctor :: jsstring where
  "kw_doctor =
     [0x637, 0x628, 0x64A, 0x628]"
definition medical_keywords :: "jsstring list" where
  "medical_keywords = [kw_hospital, kw_clinic, kw_analysis, kw_medicine, kw_review, kw_doctor]"

text \<open>
  The labels of the description: ``with: '', ``before: '', ``after: '', ``every '',
  ``recurring'', ``recurrence: '', ``tags: '', the three suggestion lines of a medical
  appointment, ``reminder before: '', `` minutes'', and the placeholder title.
\<close>

definition lbl_with :: jsstring where
  "lbl_with =
     [0x645, 0x639, 0x3A, 0x20]"
definition lbl_before :: jsstring where
  "lbl_before =
     [0x642, 0x628, 0x644, 0x3A, 0x20]"
definition lbl_after :: jsstring where
  "lbl_after =
     [0x628, 0x639, 0x62F, 0x3A, 0x20]"
definition lbl_every :: jsstring where
  "lbl_every =
     [0x643, 0x644, 0x20]"
definition lbl_recurring :: jsstring where
  "lbl_recurring =
     [0x645, 0x62A, 0x643, 0x631, 0x631]"
definition lbl_recurrence :: jsstring where
  "lbl_recurrence =
     [0x62A, 0x643, 0x631, 0x627, 0x631, 0x3A, 0x20]"
definition lbl_tags :: jsstring where
  "lbl_tags =
     [0x648, 0x633, 0x648, 0x645, 0x3A, 0x20]"
definition suggest_before :: jsstring where
  "suggest_before =
     [0x627, 0x642, 0x62A, 0x631, 0x627, 0x62D, 0x20, 0x642, 0x628, 0x644, 0x20, 0x627,
     0x644, 0x645, 0x648, 0x639, 0x62F, 0x3A, 0x20, 0x62A, 0x62D, 0x636, 0x64A, 0x631, 0x20,
     0x627, 0x644, 0x62A, 0x62D, 0x627, 0x644, 0x64A, 0x644, 0x20, 0x623, 0x648, 0x20, 0x627,
     0x644, 0x645, 0x644, 0x641, 0x627, 0x62A, 0x20, 0x627, 0x644, 0x636, 0x631, 0x648,
     0x631, 0x64A, 0x629]"
definition suggest_after :: jsstring where
  "suggest_after =
     [0x627, 0x642, 0x62A, 0x631, 0x627, 0x62D, 0x20, 0x628, 0x639, 0x62F, 0x20, 0x627,
     0x644, 0x645, 0x648, 0x639, 0x62F, 0x3A, 0x20, 0x62A, 0x62F, 0x648, 0x64A, 0x646, 0x20,
     0x627, 0x644, 0x645, 0x644, 0x627, 0x62D, 0x638, 0x627, 0x62A, 0x20, 0x648, 0x627,
     0x644, 0x62A, 0x639, 0x644, 0x64A, 0x645, 0x627, 0x62A, 0x20, 0x627, 0x644, 0x637,
     0x628, 0x64A, 0x629]"
definition suggest_alert :: jsstring where
  "suggest_alert =
     [0x62A, 0x646, 0x628, 0x64A, 0x647, 0x20, 0x645, 0x642, 0x62A, 0x631, 0x62D, 0x3A, 0x20,
     0x642, 0x628, 0x644] @ ascii '' 15 '' @ [0x62F, 0x642, 0x64A, 0x642, 0x629, 0x20, 0x639,
     0x644, 0x649, 0x20, 0x627, 0x644, 0x623, 0x642, 0x644]"
definition lbl_reminder :: jsstring where
  "lbl_reminder =
     [0x62A, 0x630, 0x643, 0x64A, 0x631, 0x20, 0x642, 0x628, 0x644, 0x3A, 0x20]"
definition lbl_minutes :: jsstring where
  "lbl_minutes =
     [0x20, 0x62F, 0x642, 0x64A, 0x642, 0x629]"
definition untitled :: jsstring where
  "untitled =
     [0x645, 0x648, 0x639, 0x62F, 0x20, 0x628, 0x62F, 0x648, 0x646, 0x20, 0x639, 0x646,
     0x648, 0x627, 0x646]"
subsection \<open>Classification and priority\<close>

definition mapTypeToPriority :: "js_runtime \<Rightarrow> jsstring \<Rightarrow> Priority" where
  "mapTypeToPriority rt ty =
     (let t = toLowerCase rt ty in
      if includes_str t (ascii ''critical'') then Critical
      else if includes_str t (ascii ''medical'') \<or> includes_str t (ascii ''medication'') then High
      else if includes_str t (ascii ''work'') then Medium
      else if includes_str t (ascii ''personal'') then Low
      else Medium)"

definition hospital_text :: "js_runtime \<Rightarrow> AtlasAppointment \<Rightarrow> jsstring" where
  "hospital_text rt raw =
     toLowerCase rt (nullish (raw_title raw) [] @ ascii '' '' @ nullish (raw_notes raw) []
                     @ ascii '' '' @ nullish (raw_location raw) [])"

definition isHospitalAppointment :: "js_runtime \<Rightarrow> AtlasAppointment \<Rightarrow> bool" where
  "isHospitalAppointment rt raw =
     (list_ex (\<lambda>k. includes_str (hospital_text rt raw) k) medical_keywords
      \<or> includes_str (toLowerCase rt (nullish (raw_type raw) [])) (ascii ''medical''))"

subsection \<open>Date and time\<close>

definition datePart :: "js_runtime \<Rightarrow> int \<Rightarrow> AtlasAppointment \<Rightarrow> jsstring" where
  "datePart rt now raw = nullish (raw_date raw) (take 10 (toISOString rt now))"

definition timePart :: "AtlasAppointment \<Rightarrow> jsstring" where
  "timePart raw = nullish (raw_time raw) (ascii ''09:00'')"

definition start_at_of :: "js_runtime \<Rightarrow> int \<Rightarrow> AtlasAppointment \<Rightarrow> jsstring" where
  "start_at_of rt now raw =
     (case Date_parse rt (datePart rt now raw @ ascii ''T'' @ timePart raw) of
        None \<Rightarrow> toISOString rt now
      | Some start \<Rightarrow> toISOString rt start)"

definition end_at_of :: "js_runtime \<Rightarrow> int \<Rightarrow> AtlasAppointment \<Rightarrow> jsstring option" where
  "end_at_of rt now raw =
     (if truthy_str (raw_end_time raw) then
        (case Date_parse rt (datePart rt now raw @ ascii ''T'' @ nullish (raw_end_time raw) []) of
           None \<Rightarrow> None
         | Some e \<Rightarrow> Some (toISOString rt e))
      else None)"

subsection \<open>Reminder and description\<close>

definition reminder_of :: "js_runtime \<Rightarrow> AtlasAppointment \<Rightarrow> int option" where
  "reminder_of rt raw =
     (case raw_reminder_minutes_before raw of
        Some n \<Rightarrow> Some n
      | None \<Rightarrow> if isHospitalAppointment rt raw then Some 120 else None)"

definition recurrence_line :: "js_runtime \<Rightarrow> Recurrence \<Rightarrow> jsstring" where
  "recurrence_line rt rc =
     (let every_txt = (case every rc of
                         None \<Rightarrow> lbl_recurring
                       | Some n \<Rightarrow> if n \<noteq> 0 then lbl_every @ Number_toString rt n else lbl_recurring);
          days = (if has_length (days_of_week rc)
                  then ascii '' ('' @ join (ascii '','') (nullish (days_of_week rc) []) @ ascii '')''
                  else [])
      in lbl_recurrence @ nullish (pattern rc) [] @ ascii '' '' @ every_txt @ days)"

text \<open>
  The array \<^verbatim>\<open>parts\<close> after the pushes that depend on the raw fields alone (notes, person,
  actions, recurrence, tags), each \<^verbatim>\<open>push\<close> an append at the end.
\<close>

definition parts_after_tags :: "js_runtime \<Rightarrow> AtlasAppointment \<Rightarrow> jsstring list" where
  "parts_after_tags rt raw =
     (let parts = [];
          parts = (if truthy_str (raw_notes raw) then parts @ [nullish (raw_notes raw) []]
                   else parts);
          parts = (if truthy_str (raw_person raw)
                   then parts @ [lbl_with @ nullish (raw_person raw) []] else parts);
          parts = (if has_length (raw_actions_before raw)
                   then parts @ [lbl_before @ join (ascii '' | '') (nullish (raw_actions_before raw) [])]
                   else parts);
          parts = (if has_length (raw_actions_after raw)
                   then parts @ [lbl_after @ join (ascii '' | '') (nullish (raw_actions_after raw) [])]
                   else parts);
          parts = (case raw_recurrence raw of
                     None \<Rightarrow> parts
                   | Some rc \<Rightarrow>
                       if truthy_str (pattern rc) \<and> pattern rc \<noteq> Some (ascii ''none'')
                       then parts @ [recurrence_line rt rc] else parts);
          parts = (if has_length (raw_tags raw)
                   then parts @ [lbl_tags @ join (ascii '', '') (nullish (raw_tags raw) [])]
                   else parts)
      in parts)"

text \<open>The array after the block guarded by \<^verbatim>\<open>if (hospital)\<close>.\<close>

definition parts_after_suggestions :: "js_runtime \<Rightarrow> AtlasAppointment \<Rightarrow> jsstring list" where
  "parts_after_suggestions rt raw =
     (let parts = parts_after_tags rt raw in
      if isHospitalAppointment rt raw then
        (let parts = (if \<not> has_length (raw_actions_before raw) then parts @ [suggest_before]
                      else parts);
             parts = (if \<not> has_length (raw_actions_after raw) then parts @ [suggest_after]
                      else parts)
         in parts @ [suggest_alert])
      else parts)"

text \<open>The array at the \<^verbatim>\<open>return\<close>: \<^verbatim>\<open>if (reminder)\<close> tests the number for truthiness.\<close>

definition description_parts :: "js_runtime \<Rightarrow> AtlasAppointment \<Rightarrow> jsstring list" where
  "description_parts rt raw =
     (let parts = parts_after_suggestions rt raw in
      case reminder_of rt raw of
        None \<Rightarrow> parts
      | Some n \<Rightarrow>
          if n \<noteq> 0 then parts @ [lbl_reminder @ Number_toString rt n @ lbl_minutes] else parts)"

subsection \<open>The conversion\<close>

definition convertAtlasToAppointment ::
  "js_runtime \<Rightarrow> int \<Rightarrow> AtlasAppointment \<Rightarrow> Appointment" where
  "convertAtlasToAppointment rt now raw =
     (let hospital = isHospitalAppointment rt raw;
          joined = join (ascii '' | '') (description_parts rt raw)
      in \<lparr> title = (if truthy_str (raw_title raw) then nullish (raw_title raw) [] else untitled),
           description = (if joined \<noteq> [] then Some joined else None),
           tag = (case raw_tags raw of
                    None \<Rightarrow> None
                  | Some [] \<Rightarrow> None
                  | Some (t # ts) \<Rightarrow> Some t),
           start_at = start_at_of rt now raw,
           end_at = end_at_of rt now raw,
           priority = (if hospital then High else mapTypeToPriority rt (nullish (raw_type raw) [])),
           status = Scheduled,
           location = raw_location raw,
           reminder_minutes_before = reminder_of rt raw \<rparr>)"

section \<open>The response extractor\<close>

text \<open>What a \<^verbatim>\<open>throw\<close> carries: an \<^verbatim>\<open>Error\<close> of the program, an error of the engine
  (\<^verbatim>\<open>SyntaxError\<close>, \<^verbatim>\<open>TypeError\<close>), each with its message, or a value that is not an
  \<^verbatim>\<open>Error\<close> instance, given by its conversion to a string.\<close>

datatype thrown =
    Error jsstring
  | SyntaxError jsstring
  | TypeError jsstring
  | NonError jsstring

fun instanceof_Error :: "thrown \<Rightarrow> bool" where
  "instanceof_Error (NonError s) = False"
| "instanceof_Error e = True"

fun message :: "thrown \<Rightarrow> jsstring" where
  "message (Error m) = m"
| "message (SyntaxError m) = m"
| "message (TypeError m) = m"
| "message (NonError s) = s"

definition msg_unparseable :: jsstring where
  "msg_unparseable =
     [0x62A, 0x639, 0x630, 0x631, 0x20, 0x642, 0x631, 0x627, 0x621, 0x629] @
     ascii '' JSON. '' @ [0x64A, 0x631, 0x62C, 0x649, 0x20, 0x625, 0x639, 0x627, 0x62F,
     0x629, 0x20, 0x627, 0x644, 0x645, 0x62D, 0x627, 0x648, 0x644, 0x629, 0x20, 0x648, 0x625,
     0x631, 0x62C, 0x627, 0x639, 0x20, 0x643, 0x627, 0x626, 0x646] @ ascii '' appointments.''"
text \<open>\<^verbatim>\<open>s.indexOf(k)\<close>, with \<open>None\<close> for \<^verbatim>\<open>-1\<close>.\<close>

fun indexOf :: "jsstring \<Rightarrow> jsstring \<Rightarrow> nat option" where
  "indexOf [] k = (if k = [] then Some 0 else None)"
| "indexOf (c # cs) k =
     (if startsWith (c # cs) k then Some 0 else map_option Suc (indexOf cs k))"

fun lastIndexOf_unit :: "jsstring \<Rightarrow> code_unit \<Rightarrow> nat option" where
  "lastIndexOf_unit [] u = None"
| "lastIndexOf_unit (c # cs) u =
     (case lastIndexOf_unit cs u of
        Some j \<Rightarrow> Some (Suc j)
      | None \<Rightarrow> if c = u then Some 0 else None)"

text \<open>The letters a regular expression with flag \<^verbatim>\<open>i\<close> identifies with an ASCII letter
  are the two ASCII cases of it.\<close>

definition ascii_lower :: "code_unit \<Rightarrow> code_unit" where
  "ascii_lower c = (if 0x41 \<le> c \<and> c \<le> 0x5A then c + 0x20 else c)"

definition fence :: jsstring where
  "fence = [0x60, 0x60, 0x60]"

text \<open>
  The first capture group of the leftmost match of the fence pattern (three backquotes,
  an optional \<^verbatim>\<open>json\<close> in any case, white space, a shortest run of any characters,
  three backquotes), \<open>None\<close> when the pattern does not match. The match starts at the
  first fence: the optional tag and the white space hold no backquote, so a closing fence
  that a later start or a shorter tag would reach is reached from the first fence too.
\<close>

definition fenceMatch :: "jsstring \<Rightarrow> jsstring option" where
  "fenceMatch rawContent =
     (case indexOf rawContent fence of
        None \<Rightarrow> None
      | Some i \<Rightarrow>
          (let rest = drop (i + 3) rawContent;
               rest = (if map ascii_lower (take 4 rest) = ascii ''json'' then drop 4 rest else rest);
               rest = dropWhile is_js_space rest
           in case indexOf rest fence of
                None \<Rightarrow> None
              | Some j \<Rightarrow> Some (take j rest)))"

text \<open>The leftmost match of the brace pattern: from the first opening brace to the last
  closing brace after it.\<close>

definition braceMatch :: "jsstring \<Rightarrow> jsstring option" where
  "braceMatch content =
     (case indexOf content (ascii ''{'') of
        None \<Rightarrow> None
      | Some i \<Rightarrow>
          (case lastIndexOf_unit (drop (i + 1) content) 0x7D of
             None \<Rightarrow> None
           | Some j \<Rightarrow> Some (take (j + 2) (drop i content))))"

definition candidate :: "jsstring \<Rightarrow> jsstring" where
  "candidate rawContent = (case fenceMatch rawContent of Some inner \<Rightarrow> inner | None \<Rightarrow> rawContent)"

definition extractAppointmentsJSON :: "js_runtime \<Rightarrow> jsstring \<Rightarrow> thrown + json" where
  "extractAppointmentsJSON rt rawContent =
     (let content = candidate rawContent in
      case JSON_parse rt content of
        Inr v \<Rightarrow> Inr v
      | Inl m \<Rightarrow>
          (case braceMatch content of
             Some b \<Rightarrow> (case JSON_parse rt b of Inr v \<Rightarrow> Inr v | Inl m' \<Rightarrow> Inl (SyntaxError m'))
           | None \<Rightarrow> Inl (Error msg_unparseable)))"

definition isRateLimitError :: "js_runtime \<Rightarrow> thrown \<Rightarrow> bool" where
  "isRateLimitError rt err =
     (let msg = message err in
      includes_str msg (ascii ''429'')
      \<or> includes_str (toLowerCase rt msg) (ascii ''too many requests''))"

section \<open>The completion client\<close>

type_synonym EnvLike = "jsstring \<Rightarrow> jsstring option"

text \<open>\<^verbatim>\<open>a || b\<close> where \<open>a\<close> is a string or undefined: the empty string is falsy.\<close>

definition or_str :: "jsstring option \<Rightarrow> jsstring option \<Rightarrow> jsstring option" where
  "or_str a b = (if truthy_str a then a else b)"

definition getEnvValue :: "jsstring \<Rightarrow> EnvLike option \<Rightarrow> EnvLike option \<Rightarrow> jsstring option" where
  "getEnvValue key viteEnv nodeEnv =
     or_str (case viteEnv of None \<Rightarrow> None | Some env \<Rightarrow> env key)
       (or_str (case nodeEnv of None \<Rightarrow> None | Some env \<Rightarrow> env key) None)"

definition default_url :: jsstring where
  "default_url = ascii ''https://api.atlascloud.ai/v1/chat/completions''"

definition resolve_url :: "EnvLike option \<Rightarrow> EnvLike option \<Rightarrow> jsstring" where
  "resolve_url viteEnv nodeEnv =
     nullish
       (or_str (getEnvValue (ascii ''VITE_ATLAS_API_URL'') viteEnv nodeEnv)
         (or_str (getEnvValue (ascii ''VITE_ATLASCLOUD_API_URL'') viteEnv nodeEnv)
           (or_str (getEnvValue (ascii ''ATLAS_API_URL'') viteEnv nodeEnv)
             (or_str (getEnvValue (ascii ''ATLASCLOUD_API_URL'') viteEnv nodeEnv)
               (Some default_url))))) []"

definition resolve_apiKey :: "EnvLike option \<Rightarrow> EnvLike option \<Rightarrow> jsstring" where
  "resolve_apiKey viteEnv nodeEnv =
     nullish
       (or_str (getEnvValue (ascii ''VITE_ATLAS_API_KEY'') viteEnv nodeEnv)
         (or_str (getEnvValue (ascii ''VITE_ATLASCLOUD_API_KEY'') viteEnv nodeEnv)
           (or_str (getEnvValue (ascii ''ATLAS_API_KEY'') viteEnv nodeEnv)
             (or_str (getEnvValue (ascii ''ATLASCLOUD_API_KEY'') viteEnv nodeEnv)
               (Some []))))) []"

definition msg_no_key :: jsstring where
  "msg_no_key =
     [0x645, 0x641, 0x62A, 0x627, 0x62D] @ ascii '' Atlas '' @ [0x63A, 0x64A, 0x631, 0x20,
     0x645, 0x648, 0x62C, 0x648, 0x62F, 0x2E, 0x20, 0x623, 0x636, 0x641] @
     ascii '' VITE_ATLAS_API_KEY '' @ [0x623, 0x648] @ ascii '' ATLAS_API_KEY.''"
definition msg_rate_limit_prefix :: jsstring where
  "msg_rate_limit_prefix =
     [0x64A, 0x631, 0x62C, 0x649, 0x20, 0x627, 0x644, 0x627, 0x646, 0x62A, 0x638, 0x627,
     0x631, 0x20, 0x642, 0x644, 0x64A, 0x644, 0x64B, 0x627, 0x20, 0x62B, 0x645, 0x20, 0x625,
     0x639, 0x627, 0x62F, 0x629, 0x20, 0x627, 0x644, 0x645, 0x62D, 0x627, 0x648, 0x644,
     0x629] @ ascii '' (429): ''"
text \<open>The system prompt, after \<^verbatim>\<open>trim()\<close>.\<close>

definition systemPrompt :: jsstring where
  "systemPrompt =
     [0x623, 0x646, 0x62A, 0x20, 0x645, 0x633, 0x627, 0x639, 0x62F, 0x20, 0x639, 0x631,
     0x628, 0x64A, 0x20, 0x644, 0x62A, 0x62D, 0x648, 0x64A, 0x644, 0x20, 0x627, 0x644, 0x646,
     0x635, 0x648, 0x635, 0x20, 0x625, 0x644, 0x649] @ ascii '' JSON '' @ [0x645, 0x648,
     0x627, 0x639, 0x64A, 0x62F, 0x2E, 0x20, 0x623, 0x639, 0x62F, 0x20, 0x643, 0x627, 0x626,
     0x646, 0x627, 0x64B, 0x20, 0x648, 0x627, 0x62D, 0x62F, 0x627, 0x64B, 0x20, 0x628, 0x647,
     0x630, 0x647, 0x20, 0x627, 0x644, 0x635, 0x64A, 0x63A, 0x629, 0x3A, 0xA, 0x7B, 0xA,
     0x20, 0x20, 0x22] @ ascii ''appointments'' @ [0x22, 0x3A, 0x20, 0x5B, 0xA, 0x20, 0x20,
     0x20, 0x20, 0x7B, 0xA, 0x20, 0x20, 0x20, 0x20, 0x20, 0x20, 0x22] @ ascii ''type'' @
     [0x22, 0x3A, 0x20, 0x22] @ ascii ''medical|medication|personal_event|work|other'' @
     [0x22, 0x2C, 0xA, 0x20, 0x20, 0x20, 0x20, 0x20, 0x20, 0x22] @ ascii ''title'' @ [0x22,
     0x3A, 0x20, 0x22, 0x639, 0x646, 0x648, 0x627, 0x646, 0x20, 0x642, 0x635, 0x64A, 0x631,
     0x22, 0x2C, 0xA, 0x20, 0x20, 0x20, 0x20, 0x20, 0x20, 0x22] @ ascii ''date'' @ [0x22,
     0x3A, 0x20, 0x22] @ ascii ''YYYY-MM-DD'' @ [0x22, 0x2C, 0xA, 0x20, 0x20, 0x20, 0x20,
     0x20, 0x20, 0x22] @ ascii ''time'' @ [0x22, 0x3A, 0x20, 0x22] @ ascii ''HH:MM'' @ [0x22,
     0x2C, 0xA, 0x20, 0x20, 0x20, 0x20, 0x20, 0x20, 0x22] @ ascii ''end_time'' @ [0x22, 0x3A,
     0x20, 0x22] @ ascii ''HH:MM '' @ [0x623, 0x648] @ ascii '' null'' @ [0x22, 0x2C, 0xA,
     0x20, 0x20, 0x20, 0x20, 0x20, 0x20, 0x22] @ ascii ''location'' @ [0x22, 0x3A, 0x20,
     0x22, 0x627, 0x62E, 0x62A, 0x64A, 0x627, 0x631, 0x64A, 0x20, 0x623, 0x648] @
     ascii '' null'' @ [0x22, 0x2C, 0xA, 0x20, 0x20, 0x20, 0x20, 0x20, 0x20, 0x22] @
     ascii ''person'' @ [0x22, 0x3A, 0x20, 0x22, 0x627, 0x62E, 0x62A, 0x64A, 0x627, 0x631,
     0x64A, 0x20, 0x623, 0x648] @ ascii '' null'' @ [0x22, 0x2C, 0xA, 0x20, 0x20, 0x20, 0x20,
     0x20, 0x20, 0x22] @ ascii ''actions_before'' @ [0x22, 0x3A, 0x20, 0x5B, 0x22, 0x62E,
     0x637, 0x648, 0x629, 0x22, 0x2C, 0x20, 0x22, 0x2E, 0x2E, 0x2E, 0x22, 0x5D, 0x2C, 0xA,
     0x20, 0x20, 0x20, 0x20, 0x20, 0x20, 0x22] @ ascii ''actions_after'' @ [0x22, 0x3A, 0x20,
     0x5B, 0x22, 0x62E, 0x637, 0x648, 0x629, 0x22, 0x2C, 0x20, 0x22, 0x2E, 0x2E, 0x2E, 0x22,
     0x5D, 0x2C, 0xA, 0x20, 0x20, 0x20, 0x20, 0x20, 0x20, 0x22] @ ascii ''tags'' @ [0x22,
     0x3A, 0x20, 0x5B, 0x22, 0x648, 0x633, 0x645, 0x31, 0x22, 0x2C, 0x20, 0x22, 0x648, 0x633,
     0x645, 0x32, 0x22, 0x5D, 0x2C, 0xA, 0x20, 0x20, 0x20, 0x20, 0x20, 0x20, 0x22] @
     ascii ''recurrence'' @ [0x22, 0x3A, 0x20, 0x7B, 0x20, 0x22] @ ascii ''pattern'' @ [0x22,
     0x3A, 0x20, 0x22] @ ascii ''none|daily|weekly|monthly|yearly'' @ [0x22, 0x2C, 0x20,
     0x22] @ ascii ''every'' @ [0x22] @ ascii '': 1, '' @ [0x22] @ ascii ''days_of_week'' @
     [0x22, 0x3A, 0x20, 0x5B, 0x22] @ ascii ''sat'' @ [0x22, 0x2C, 0x22] @ ascii ''sun'' @
     [0x22, 0x2C, 0x22] @ ascii ''mon'' @ [0x22, 0x2C, 0x22] @ ascii ''tue'' @ [0x22, 0x2C,
     0x22] @ ascii ''wed'' @ [0x22, 0x2C, 0x22] @ ascii ''thu'' @ [0x22, 0x2C, 0x22] @
     ascii ''fri'' @ [0x22, 0x5D, 0x20, 0x7D, 0x2C, 0xA, 0x20, 0x20, 0x20, 0x20, 0x20, 0x20,
     0x22] @ ascii ''reminder_minutes_before'' @ [0x22] @ ascii '': 30,'' @ [0xA, 0x20, 0x20,
     0x20, 0x20, 0x20, 0x20, 0x22] @ ascii ''notes'' @ [0x22, 0x3A, 0x20, 0x22, 0x627, 0x62E,
     0x62A, 0x64A, 0x627, 0x631, 0x64A, 0x20, 0x623, 0x648] @ ascii '' null'' @ [0x22, 0xA,
     0x20, 0x20, 0x20, 0x20, 0x7D, 0xA, 0x20, 0x20, 0x5D, 0xA, 0x7D, 0xA, 0x634, 0x631,
     0x648, 0x637, 0x3A, 0xA, 0x2D, 0x20, 0x625, 0x646, 0x20, 0x644, 0x645, 0x20, 0x62A,
     0x62C, 0x62F, 0x20, 0x645, 0x648, 0x627, 0x639, 0x64A, 0x62F, 0x20, 0x623, 0x631, 0x62C,
     0x639, 0x20, 0x7B, 0x22] @ ascii ''appointments'' @ [0x22, 0x3A, 0x20, 0x5B, 0x5D, 0x7D,
     0x2E, 0xA, 0x2D, 0x20, 0x644, 0x627, 0x20, 0x62A, 0x636, 0x639, 0x20, 0x62D, 0x642,
     0x648, 0x644, 0x627, 0x64B, 0x20, 0x641, 0x627, 0x631, 0x63A, 0x629, 0x61B, 0x20, 0x627,
     0x633, 0x62A, 0x62E, 0x62F, 0x645] @ ascii '' null '' @ [0x623, 0x648, 0x20, 0x5B, 0x5D,
     0x20, 0x639, 0x646, 0x62F, 0x20, 0x627, 0x644, 0x62D, 0x627, 0x62C, 0x629, 0x2E, 0xA,
     0x2D, 0x20, 0x62A, 0x623, 0x643, 0x62F, 0x20, 0x623, 0x646] @ ascii '' JSON '' @ [0x635,
     0x627, 0x644, 0x62D, 0x20, 0x628, 0x627, 0x644, 0x643, 0x627, 0x645, 0x644, 0x20, 0x62F,
     0x648, 0x646, 0x20, 0x646, 0x635, 0x20, 0x632, 0x627, 0x626, 0x62F, 0x2E]"
record chat_message =
  msg_role :: jsstring
  msg_content :: jsstring

record payload =
  model :: jsstring
  messages :: "chat_message list"
  max_tokens :: int
  temperature :: real
  top_p :: real
  top_k :: int
  repetition_penalty :: real
  stream :: bool

text \<open>The call of \<^verbatim>\<open>fetch\<close>: the body is the payload that \<^verbatim>\<open>JSON.stringify\<close> serialises.\<close>

record request =
  req_url :: jsstring
  req_method :: jsstring
  req_headers :: "(jsstring \<times> jsstring) list"
  req_body :: payload

text \<open>
  What \<^verbatim>\<open>fetch\<close> gives back: a rejection (no response at all), or a response with its
  status and its body text. \<^verbatim>\<open>res.ok\<close> is true for a status from 200 to 299.
\<close>

datatype fetch_result =
    Rejected thrown
  | Response int jsstring

definition res_ok :: "int \<Rightarrow> bool" where
  "res_ok st = (200 \<le> st \<and> st \<le> 299)"

text \<open>Reading a JSON value: \<^verbatim>\<open>v?.[k]\<close> for a property name and \<^verbatim>\<open>v?.[0]\<close>, with
  \<open>None\<close> for \<^verbatim>\<open>undefined\<close>. An object holds one entry for each of its keys.\<close>

fun get_prop :: "json option \<Rightarrow> jsstring \<Rightarrow> json option" where
  "get_prop (Some (JObj kvs)) k = map_of kvs k"
| "get_prop v k = None"

fun get_first :: "json option \<Rightarrow> json option" where
  "get_first (Some (JArr (x # xs))) = Some x"
| "get_first (Some (JStr (c # cs))) = Some (JStr [c])"
| "get_first (Some (JObj kvs)) = map_of kvs (ascii ''0'')"
| "get_first v = None"

fun truthy :: "json option \<Rightarrow> bool" where
  "truthy None = False"
| "truthy (Some JNull) = False"
| "truthy (Some (JBool b)) = b"
| "truthy (Some (JNum n)) = (n \<noteq> 0)"
| "truthy (Some (JStr s)) = (s \<noteq> [])"
| "truthy (Some v) = True"

definition assistantContent :: "json \<Rightarrow> json" where
  "assistantContent j =
     (let choice = get_first (get_prop (Some j) (ascii ''choices''));
          c1 = get_prop (get_prop choice (ascii ''message'')) (ascii ''content'');
          c2 = get_prop (get_prop choice (ascii ''delta'')) (ascii ''content'')
      in if truthy c1 then nullish c1 JNull
         else if truthy c2 then nullish c2 JNull
         else JNull)"

record atlas_reply =
  reply_raw :: json
  assistant :: json

text \<open>The environment of a call: the two variable tables and the network.\<close>

record client_env =
  viteEnv :: "EnvLike option"
  nodeEnv :: "EnvLike option"
  fetch :: "request \<Rightarrow> fetch_result"

definition build_request :: "jsstring \<Rightarrow> jsstring \<Rightarrow> jsstring \<Rightarrow> request" where
  "build_request url apiKey userText =
     (let trimmedUserText = take 2000 userText in
      \<lparr> req_url = url,
        req_method = ascii ''POST'',
        req_headers = [(ascii ''Content-Type'', ascii ''application/json''),
                       (ascii ''Authorization'', ascii ''Bearer '' @ apiKey)],
        req_body = \<lparr> model = ascii ''openai/gpt-oss-20b'',
                     messages = [\<lparr> msg_role = ascii ''system'', msg_content = systemPrompt \<rparr>,
                                 \<lparr> msg_role = ascii ''user'', msg_content = trimmedUserText \<rparr>],
                     max_tokens = 256,
                     temperature = 2 / 10,
                     top_p = 7 / 10,
                     top_k = 20,
                     repetition_penalty = 102 / 100,
                     stream = False \<rparr> \<rparr>)"

text \<open>
  \<^verbatim>\<open>sendToAtlas\<close>: the result, and the requests it handed to \<^verbatim>\<open>fetch\<close>, in order.
\<close>

definition handle_response :: "js_runtime \<Rightarrow> fetch_result \<Rightarrow> thrown + atlas_reply" where
  "handle_response rt r =
     (case r of
        Rejected e \<Rightarrow> Inl e
      | Response st txt \<Rightarrow>
          if \<not> res_ok st then
            (let lowered = toLowerCase rt txt in
             if st = 429 \<or> includes_str lowered (ascii ''too many requests'')
                \<or> includes_str lowered (ascii ''only request this after'')
             then Inl (Error (msg_rate_limit_prefix @ txt))
             else Inl (Error (ascii ''Atlas API error: '' @ Number_toString rt st @ ascii '' '' @ txt)))
          else
            (case JSON_parse rt txt of
               Inl m \<Rightarrow> Inl (SyntaxError m)
             | Inr j \<Rightarrow> Inr \<lparr> reply_raw = j, assistant = assistantContent j \<rparr>))"

definition sendToAtlas ::
  "js_runtime \<Rightarrow> 'a client_env_scheme \<Rightarrow> jsstring \<Rightarrow> (thrown + atlas_reply) \<times> request list" where
  "sendToAtlas rt env userText =
     (let url = resolve_url (viteEnv env) (nodeEnv env);
          apiKey = resolve_apiKey (viteEnv env) (nodeEnv env)
      in if apiKey = [] then (Inl (Error msg_no_key), [])
         else (let req = build_request url apiKey userText
               in (handle_response rt (fetch env req), [req])))"

section \<open>The pipeline orchestrator\<close>

subsection \<open>Items of the parsed reply as raw appointments\<close>

text \<open>
  \<^verbatim>\<open>handleAiSubmit\<close> annotates each item of the parsed array with the type
  \<^verbatim>\<open>AtlasAppointment\<close>; the annotation is not checked when the program runs. The model
  reads an item that inhabits the type (an object whose fields, when present and not null,
  have the declared types) and is undefined (\<open>None\<close>) on any other item. In a field
  reader, \<open>Some None\<close> is an absent or null field and \<open>None\<close> an ill-typed one.
\<close>

definition str_field :: "(jsstring \<times> json) list \<Rightarrow> jsstring \<Rightarrow> jsstring option option" where
  "str_field kvs k =
     (case map_of kvs k of
        None \<Rightarrow> Some None
      | Some JNull \<Rightarrow> Some None
      | Some (JStr s) \<Rightarrow> Some (Some s)
      | Some v \<Rightarrow> None)"

definition num_field :: "(jsstring \<times> json) list \<Rightarrow> jsstring \<Rightarrow> int option option" where
  "num_field kvs k =
     (case map_of kvs k of
        None \<Rightarrow> Some None
      | Some JNull \<Rightarrow> Some None
      | Some (JNum n) \<Rightarrow> Some (Some n)
      | Some v \<Rightarrow> None)"

fun as_string :: "json \<Rightarrow> jsstring option" where
  "as_string (JStr s) = Some s"
| "as_string v = None"

definition strs_field :: "(jsstring \<times> json) list \<Rightarrow> jsstring \<Rightarrow> jsstring list option option" where
  "strs_field kvs k =
     (case map_of kvs k of
        None \<Rightarrow> Some None
      | Some JNull \<Rightarrow> Some None
      | Some (JArr vs) \<Rightarrow> map_option Some (those (map as_string vs))
      | Some v \<Rightarrow> None)"

definition recurrence_field :: "(jsstring \<times> json) list \<Rightarrow> jsstring \<Rightarrow> Recurrence option option" where
  "recurrence_field kvs k =
     (case map_of kvs k of
        None \<Rightarrow> Some None
      | Some JNull \<Rightarrow> Some None
      | Some (JObj rs) \<Rightarrow>
          do {
            p \<leftarrow> str_field rs (ascii ''pattern'');
            e \<leftarrow> num_field rs (ascii ''every'');
            d \<leftarrow> strs_field rs (ascii ''days_of_week'');
            Some (Some \<lparr> pattern = p, every = e, days_of_week = d \<rparr>)
          }
      | Some v \<Rightarrow> None)"

fun as_AtlasAppointment :: "json \<Rightarrow> AtlasAppointment option" where
  "as_AtlasAppointment (JObj kvs) =
     do {
       ty \<leftarrow> str_field kvs (ascii ''type'');
       ti \<leftarrow> str_field kvs (ascii ''title'');
       da \<leftarrow> str_field kvs (ascii ''date'');
       tm \<leftarrow> str_field kvs (ascii ''time'');
       en \<leftarrow> str_field kvs (ascii ''end_time'');
       lo \<leftarrow> str_field kvs (ascii ''location'');
       pe \<leftarrow> str_field kvs (ascii ''person'');
       ab \<leftarrow> strs_field kvs (ascii ''actions_before'');
       aa \<leftarrow> strs_field kvs (ascii ''actions_after'');
       tg \<leftarrow> strs_field kvs (ascii ''tags'');
       rm \<leftarrow> num_field kvs (ascii ''reminder_minutes_before'');
       rc \<leftarrow> recurrence_field kvs (ascii ''recurrence'');
       no \<leftarrow> str_field kvs (ascii ''notes'');
       Some \<lparr> raw_type = ty, raw_title = ti, raw_date = da, raw_time = tm, raw_end_time = en,
              raw_location = lo, raw_person = pe, raw_actions_before = ab,
              raw_actions_after = aa, raw_tags = tg, raw_reminder_minutes_before = rm,
              raw_recurrence = rc, raw_notes = no \<rparr>
     }"
| "as_AtlasAppointment v = None"

subsection \<open>The submit handler\<close>

definition msg_empty_input :: jsstring where
  "msg_empty_input =
     [0x627, 0x643, 0x62A, 0x628, 0x20, 0x62A, 0x641, 0x627, 0x635, 0x64A, 0x644, 0x20,
     0x627, 0x644, 0x645, 0x648, 0x639, 0x62F, 0x20, 0x623, 0x648, 0x644, 0x627, 0x64B, 0x2E]"
definition msg_no_appointments :: jsstring where
  "msg_no_appointments =
     [0x644, 0x645, 0x20, 0x64A, 0x62A, 0x645, 0x20, 0x627, 0x633, 0x62A, 0x62E, 0x631,
     0x627, 0x62C, 0x20, 0x623, 0x64A, 0x20, 0x645, 0x648, 0x627, 0x639, 0x64A, 0x62F, 0x2E]"
definition msg_added_prefix :: jsstring where
  "msg_added_prefix =
     [0x62A, 0x645, 0x62A, 0x20, 0x625, 0x636, 0x627, 0x641, 0x629, 0x20]"
definition msg_added_suffix :: jsstring where
  "msg_added_suffix =
     [0x20, 0x645, 0x648, 0x639, 0x62F, 0x2F, 0x645, 0x648, 0x627, 0x639, 0x64A, 0x62F, 0x2E]"
definition msg_wait_retry :: jsstring where
  "msg_wait_retry =
     [0x627, 0x644, 0x631, 0x62C, 0x627, 0x621, 0x20, 0x627, 0x644, 0x627, 0x646, 0x62A,
     0x638, 0x627, 0x631, 0x20, 0x62B, 0x645, 0x20, 0x627, 0x644, 0x645, 0x62D, 0x627, 0x648,
     0x644, 0x629, 0x20, 0x645, 0x62C, 0x62F, 0x62F, 0x64B, 0x627] @ ascii '' (429).''"
definition msg_wait_retry_modal :: jsstring where
  "msg_wait_retry_modal =
     [0x62A, 0x62C, 0x627, 0x648, 0x632, 0x62A, 0x20, 0x627, 0x644, 0x62D, 0x62F, 0x20,
     0x627, 0x644, 0x645, 0x633, 0x645, 0x648, 0x62D, 0x2E, 0x20, 0x627, 0x644, 0x631, 0x62C,
     0x627, 0x621, 0x20, 0x627, 0x644, 0x627, 0x646, 0x62A, 0x638, 0x627, 0x631, 0x20, 0x62B,
     0x645, 0x20, 0x627, 0x644, 0x645, 0x62D, 0x627, 0x648, 0x644, 0x629, 0x2E]"
definition msg_unexpected :: jsstring where
  "msg_unexpected =
     [0x62D, 0x62F, 0x62B, 0x20, 0x62E, 0x637, 0x623, 0x20, 0x63A, 0x64A, 0x631, 0x20, 0x645,
     0x62A, 0x648, 0x642, 0x639, 0x2E]"
definition modal_title :: jsstring where
  "modal_title =
     [0x62A, 0x639, 0x630, 0x631, 0x20, 0x625, 0x636, 0x627, 0x641, 0x629, 0x20, 0x627,
     0x644, 0x645, 0x648, 0x639, 0x62F, 0x20, 0x622, 0x644, 0x64A, 0x64B, 0x627]"
text \<open>The state of the form that the handler reads and sets.\<close>

record ui_state =
  aiText :: jsstring
  aiError :: "jsstring option"
  aiSuccess :: "jsstring option"
  errorModal :: "(jsstring \<times> jsstring) option"
  aiLoading :: bool

text \<open>
  What the handler calls: the client's environment, the clock read by the conversion of
  the \<open>i\<close>-th item, and the store's \<^verbatim>\<open>add\<close>, whose \<open>i\<close>-th call returns or throws.
\<close>

record app_env = client_env +
  clock :: "nat \<Rightarrow> int"
  add :: "nat \<Rightarrow> Appointment \<Rightarrow> thrown option"

text \<open>A run of the handler: the state it leaves, the requests sent to the network, the
  drafts handed to \<^verbatim>\<open>add\<close>, and whether the store was fetched again.\<close>

record run =
  ui :: ui_state
  requests :: "request list"
  add_calls :: "Appointment list"
  refetched :: bool

text \<open>The statements of the \<^verbatim>\<open>try\<close> block from the reply to the non-empty array:
  the parsed value, the array read from it, and the test of its length.\<close>

definition parse_content :: "js_runtime \<Rightarrow> json \<Rightarrow> thrown + json" where
  "parse_content rt content = (case content of JStr s \<Rightarrow> extractAppointmentsJSON rt s | v \<Rightarrow> Inr v)"

definition appointments_of :: "json \<Rightarrow> json list" where
  "appointments_of parsed =
     (case get_prop (Some parsed) (ascii ''appointments'') of
        Some (JArr items) \<Rightarrow> items
      | v \<Rightarrow> [])"

definition extract_items :: "js_runtime \<Rightarrow> json \<Rightarrow> thrown + json list" where
  "extract_items rt content =
     (case parse_content rt content of
        Inl e \<Rightarrow> Inl e
      | Inr parsed \<Rightarrow>
          (let appointmentsRaw = appointments_of parsed
           in if appointmentsRaw = [] then Inl (Error msg_no_appointments)
              else Inr appointmentsRaw))"

fun convert_from :: "js_runtime \<Rightarrow> (nat \<Rightarrow> int) \<Rightarrow> nat \<Rightarrow> json list \<Rightarrow> Appointment list option" where
  "convert_from rt clk i [] = Some []"
| "convert_from rt clk i (item # items) =
     do {
       raw \<leftarrow> as_AtlasAppointment item;
       rest \<leftarrow> convert_from rt clk (Suc i) items;
       Some (convertAtlasToAppointment rt (clk i) raw # rest)
     }"

text \<open>The loop \<^verbatim>\<open>for (const appt of toInsert) await add(appt)\<close>: it stops at the first
  call that throws.\<close>

fun add_from :: "(nat \<Rightarrow> Appointment \<Rightarrow> thrown option) \<Rightarrow> nat \<Rightarrow> Appointment list
                  \<Rightarrow> thrown option \<times> Appointment list" where
  "add_from ad i [] = (None, [])"
| "add_from ad i (a # rest) =
     (case ad i a of
        Some e \<Rightarrow> (Some e, [a])
      | None \<Rightarrow> (case add_from ad (Suc i) rest of (r, calls) \<Rightarrow> (r, a # calls)))"

text \<open>The \<^verbatim>\<open>catch\<close> block followed by \<^verbatim>\<open>finally\<close>.\<close>

definition on_error :: "js_runtime \<Rightarrow> thrown \<Rightarrow> ui_state \<Rightarrow> ui_state" where
  "on_error rt err u =
     u \<lparr> aiError := Some (if isRateLimitError rt err then msg_wait_retry
                           else if instanceof_Error err then message err else msg_unexpected),
         errorModal := Some (modal_title,
                             if isRateLimitError rt err then msg_wait_retry_modal
                             else if instanceof_Error err then message err else msg_unexpected),
         aiLoading := False \<rparr>"

definition handleAiSubmit :: "js_runtime \<Rightarrow> 'a app_env_scheme \<Rightarrow> ui_state \<Rightarrow> run option" where
  "handleAiSubmit rt env u0 =
     (let u = u0 \<lparr> aiError := None, aiSuccess := None \<rparr> in
      if trim (aiText u) = [] then
        Some \<lparr> ui = u \<lparr> aiError := Some msg_empty_input \<rparr>,
               requests = [], add_calls = [], refetched = False \<rparr>
      else
        (let u = u \<lparr> aiLoading := True \<rparr> in
         case sendToAtlas rt env (trim (aiText u)) of
           (Inl e, reqs) \<Rightarrow>
             Some \<lparr> ui = on_error rt e u, requests = reqs, add_calls = [], refetched = False \<rparr>
         | (Inr res, reqs) \<Rightarrow>
             (case extract_items rt (assistant res) of
                Inl e \<Rightarrow>
                  Some \<lparr> ui = on_error rt e u, requests = reqs, add_calls = [],
                         refetched = False \<rparr>
              | Inr appointmentsRaw \<Rightarrow>
                  (case convert_from rt (clock env) 0 appointmentsRaw of
                     None \<Rightarrow> None
                   | Some toInsert \<Rightarrow>
                       (case add_from (add env) 0 toInsert of
                          (Some e, calls) \<Rightarrow>
                            Some \<lparr> ui = on_error rt e u, requests = reqs, add_calls = calls,
                                   refetched = False \<rparr>
                        | (None, calls) \<Rightarrow>
                            Some \<lparr> ui = u \<lparr> aiText := [],
                                            aiSuccess := Some (msg_added_prefix
                                              @ Number_toString rt (int (length toInsert))
                                              @ msg_added_suffix),
                                            aiLoading := False \<rparr>,
                                   requests = reqs, add_calls = calls,
                                   refetched = True \<rparr>)))))"

section \<open>The order of configuration, in the words of the specification\<close>

text \<open>
  The specification resolves a setting from an ordered list of locations: the value of the
  first location that yields one, and the fallback when none does. The client's nested
  \<^verbatim>\<open>||\<close> chains are compared with this function.
\<close>

fun first_configured :: "jsstring option list \<Rightarrow> jsstring \<Rightarrow> jsstring" where
  "first_configured [] fallback = fallback"
| "first_configured (None # rest) fallback = first_configured rest fallback"
| "first_configured (Some s # rest) fallback = s"

section \<open>An engine and inputs for running the model\<close>

text \<open>
  The theorems below hold for every engine. To run the model on concrete inputs, here is
  one engine, in the time zone UTC: it lower-cases the ASCII letters, reads a date-time of
  the form \<^verbatim>\<open>YYYY-MM-DDTHH:MM\<close> as a local time, prints an instant in the ISO form, and
  parses two JSON texts. A second engine differs in its time zone only, three hours east
  of UTC.
\<close>

subsection \<open>Calendar arithmetic of the example engine\<close>

text \<open>
  The day count of a date of the proleptic Gregorian calendar (days since 1970-01-01), and
  the date of a day count, by eras of 400 years with the year starting in March.
\<close>

definition days_from_civil :: "int \<Rightarrow> int \<Rightarrow> int \<Rightarrow> int" where
  "days_from_civil y m d =
     (let y1 = (if m \<le> 2 then y - 1 else y);
          era = y1 div 400;
          yoe = y1 - era * 400;
          mp = (m + 9) mod 12;
          doy = (153 * mp + 2) div 5 + d - 1;
          doe = yoe * 365 + yoe div 4 - yoe div 100 + doy
      in era * 146097 + doe - 719468)"

definition civil_from_days :: "int \<Rightarrow> int \<times> int \<times> int" where
  "civil_from_days z0 =
     (let z = z0 + 719468;
          era = z div 146097;
          doe = z - era * 146097;
          yoe = (doe - doe div 1460 + doe div 36524 - doe div 146096) div 365;
          doy = doe - (365 * yoe + yoe div 4 - yoe div 100);
          mp = (5 * doy + 2) div 153;
          d = doy - (153 * mp + 2) div 5 + 1;
          m = (if mp < 10 then mp + 3 else mp - 9);
          y = yoe + era * 400 + (if m \<le> 2 then 1 else 0)
      in (y, m, d))"

text \<open>The decimal digits of a number, with zeros in front up to the given width.\<close>

definition pad :: "nat \<Rightarrow> int \<Rightarrow> jsstring" where
  "pad k n = (let ds = digits_of (nat n) in replicate (k - length ds) 0x30 @ ds)"

text \<open>\<^verbatim>\<open>toISOString\<close>: the date and time of an instant in UTC, with a sign and six
  digits for a year outside 0 to 9999.\<close>

definition iso_of_instant :: "int \<Rightarrow> jsstring" where
  "iso_of_instant t =
     (let ms = t mod 86400000 in
      case civil_from_days (t div 86400000) of
        (y, m, d) \<Rightarrow>
          (if 0 \<le> y \<and> y \<le> 9999 then pad 4 y
           else (if y < 0 then ascii ''-'' else ascii ''+'') @ pad 6 (abs y))
          @ ascii ''-'' @ pad 2 m @ ascii ''-'' @ pad 2 d
          @ ascii ''T'' @ pad 2 (ms div 3600000) @ ascii '':'' @ pad 2 (ms div 60000 mod 60)
          @ ascii '':'' @ pad 2 (ms div 1000 mod 60) @ ascii ''.'' @ pad 3 (ms mod 1000)
          @ ascii ''Z'')"

text \<open>The calendar date that the clocks of a zone show at an instant; the zone is given by
  its offset from UTC, in minutes to the east.\<close>

definition local_date :: "int \<Rightarrow> int \<Rightarrow> jsstring" where
  "local_date offset t = take 10 (iso_of_instant (t + offset * 60000))"

definition digit_value :: "code_unit \<Rightarrow> int option" where
  "digit_value c = (if 0x30 \<le> c \<and> c \<le> 0x39 then Some (uint c - 48) else None)"

fun decimal_value :: "int \<Rightarrow> jsstring \<Rightarrow> int option" where
  "decimal_value acc [] = Some acc"
| "decimal_value acc (c # cs) =
     (case digit_value c of None \<Rightarrow> None | Some v \<Rightarrow> decimal_value (10 * acc + v) cs)"

definition days_in_month :: "int \<Rightarrow> int \<Rightarrow> int" where
  "days_in_month y m =
     (if m = 2 then (if (if y mod 100 = 0 then y mod 400 = 0 else y mod 4 = 0) then 29 else 28)
      else if m = 4 \<or> m = 6 \<or> m = 9 \<or> m = 11 then 30 else 31)"

text \<open>
  \<^verbatim>\<open>new Date(s)\<close> on a text of the form \<^verbatim>\<open>YYYY-MM-DDTHH:MM\<close>: a date-time without offset
  is a local time, so the instant is the one at which the clocks of the zone show it. This
  engine takes every other text as an invalid date.
\<close>

definition parse_local :: "int \<Rightarrow> jsstring \<Rightarrow> int option" where
  "parse_local offset s =
     (if length s = 16 \<and> take 1 (drop 4 s) = ascii ''-'' \<and> take 1 (drop 7 s) = ascii ''-''
         \<and> take 1 (drop 10 s) = ascii ''T'' \<and> take 1 (drop 13 s) = ascii '':''
      then do {
             y \<leftarrow> decimal_value 0 (take 4 s);
             m \<leftarrow> decimal_value 0 (take 2 (drop 5 s));
             d \<leftarrow> decimal_value 0 (take 2 (drop 8 s));
             h \<leftarrow> decimal_value 0 (take 2 (drop 11 s));
             mi \<leftarrow> decimal_value 0 (take 2 (drop 14 s));
             if 1 \<le> m \<and> m \<le> 12 \<and> 1 \<le> d \<and> d \<le> days_in_month y m \<and> h \<le> 23 \<and> mi \<le> 59
             then Some ((days_from_civil y m d * 1440 + h * 60 + mi - offset) * 60000)
             else None
           }
      else None)"


definition dq :: jsstring where
  "dq = [0x22]"

definition empty_reply_text :: jsstring where
  "empty_reply_text = ascii ''{'' @ dq @ ascii ''appointments'' @ dq @ ascii '': []}''"

definition envelope_text :: jsstring where
  "envelope_text = ascii ''{'' @ dq @ ascii ''choices'' @ dq @ ascii '': [{'' @ dq @ ascii ''message''
     @ dq @ ascii '': {'' @ dq @ ascii ''content'' @ dq @ ascii '': '' @ dq @ ascii ''{'' @ [0x5C]
     @ dq @ ascii ''appointments'' @ [0x5C] @ dq @ ascii '': []}'' @ dq @ ascii ''}}]}''"

definition example_runtime :: js_runtime where
  "example_runtime =
     \<lparr> toLowerCase = map ascii_lower,
       Date_parse = parse_local 0,
       toISOString = iso_of_instant,
       JSON_parse = (\<lambda>s. if s = empty_reply_text
                            then Inr (JObj [(ascii ''appointments'', JArr [])])
                          else if s = envelope_text
                            then Inr (JObj [(ascii ''choices'',
                                   JArr [JObj [(ascii ''message'',
                                     JObj [(ascii ''content'', JStr empty_reply_text)])]])])
                          else Inl (ascii ''Unexpected token'')),
       large_number_text = (\<lambda>n. ascii ''Infinity'') \<rparr>"

text \<open>The same engine on a machine whose clocks are three hours ahead of UTC.\<close>

definition riyadh_runtime :: js_runtime where
  "riyadh_runtime = example_runtime \<lparr> Date_parse := parse_local 180 \<rparr>"

text \<open>The instant 2025-05-12T22:30:00.000Z: half past one in the night of 13 May on the
  clocks of that machine.\<close>

definition riyadh_night :: int where
  "riyadh_night = 1747089000000"

text \<open>The instant 2025-05-12T08:00:00.000Z.\<close>

definition example_now :: int where
  "example_now = 1747036800000"

definition empty_raw :: AtlasAppointment where
  "empty_raw =
     \<lparr> raw_type = None, raw_title = None, raw_date = None, raw_time = None,
       raw_end_time = None, raw_location = None, raw_person = None,
       raw_actions_before = None, raw_actions_after = None, raw_tags = None,
       raw_reminder_minutes_before = None, raw_recurrence = None, raw_notes = None \<rparr>"

text \<open>A work item whose location names a clinic (``family clinic'').\<close>

definition clinic_raw :: AtlasAppointment where
  "clinic_raw =
     empty_raw \<lparr> raw_type := Some (ascii ''work''),
                 raw_date := Some (ascii ''2025-05-12''),
                 raw_time := Some (ascii ''16:30''),
                 raw_end_time := Some (ascii ''17:15''),
                 raw_location := Some (kw_clinic @ [0x20, 0x627, 0x644, 0x623, 0x633, 0x631, 0x629]) \<rparr>"

text \<open>The item of the recurrence scenario: only \<^verbatim>\<open>recurrence\<close> is populated.\<close>

definition weekly_raw :: AtlasAppointment where
  "weekly_raw =
     empty_raw \<lparr> raw_recurrence :=
       Some \<lparr> pattern = Some (ascii ''weekly''), every = Some 2,
              days_of_week = Some [ascii ''sat'', ascii ''mon''] \<rparr> \<rparr>"

text \<open>Items with a reminder value of their own: negative, zero, and thirty minutes.\<close>

definition negative_raw :: AtlasAppointment where
  "negative_raw = empty_raw \<lparr> raw_reminder_minutes_before := Some (- 5) \<rparr>"

definition zero_raw :: AtlasAppointment where
  "zero_raw = empty_raw \<lparr> raw_reminder_minutes_before := Some 0 \<rparr>"

definition thirty_raw :: AtlasAppointment where
  "thirty_raw = empty_raw \<lparr> raw_reminder_minutes_before := Some 30 \<rparr>"

text \<open>A medical item (by its type) that asks for a reminder of zero minutes.\<close>

definition medical_zero_raw :: AtlasAppointment where
  "medical_zero_raw =
     empty_raw \<lparr> raw_type := Some (ascii ''Medical''),
                 raw_actions_before := Some [ascii ''fast''],
                 raw_reminder_minutes_before := Some 0 \<rparr>"

text \<open>
  An environment with a key under the third name only, no URL, a network that answers every
  request with the given result, and a store that accepts every draft.
\<close>

definition example_env :: "fetch_result \<Rightarrow> app_env" where
  "example_env answer =
     \<lparr> viteEnv = None,
       nodeEnv = Some (\<lambda>k. if k = ascii ''ATLAS_API_KEY'' then Some (ascii ''secret'')
                            else if k = ascii ''VITE_ATLAS_API_KEY'' then Some []
                            else None),
       fetch = (\<lambda>req. answer),
       clock = (\<lambda>i. example_now),
       add = (\<lambda>i a. None) \<rparr>"

text \<open>An environment without any key.\<close>

definition keyless_env :: app_env where
  "keyless_env =
     \<lparr> viteEnv = Some (\<lambda>k. None),
       nodeEnv = None,
       fetch = (\<lambda>req. Response 200 empty_reply_text),
       clock = (\<lambda>i. example_now),
       add = (\<lambda>i a. None) \<rparr>"

definition example_ui :: "jsstring \<Rightarrow> ui_state" where
  "example_ui txt =
     \<lparr> aiText = txt, aiError = None, aiSuccess = None, errorModal = None, aiLoading = False \<rparr>"

section \<open>Properties of the normalizer\<close>

text \<open>
  Claim C1. When the medical classification of a raw item holds, that is, when the
  lower-cased text ``title notes location'' contains one of the six medical keywords or
  the lower-cased raw type contains ``medical'', the draft's priority is high whatever the
  raw type would map to, and a raw item without reminder value gets a reminder of 120
  minutes.
\<close>

theorem medical_forces_high_priority_and_reminder:
  assumes "(\<exists>k \<in> set medical_keywords.
              includes_str (toLowerCase rt (nullish (raw_title raw) [] @ ascii '' ''
                 @ nullish (raw_notes raw) [] @ ascii '' '' @ nullish (raw_location raw) [])) k)
           \<or> includes_str (toLowerCase rt (nullish (raw_type raw) [])) (ascii ''medical'')"
  shows "priority (convertAtlasToAppointment rt now raw) = High
         \<and> (raw_reminder_minutes_before raw = None \<longrightarrow>
              reminder_minutes_before (convertAtlasToAppointment rt now raw) = Some 120)"
proof -
  from assms have "isHospitalAppointment rt raw"
    by (simp add: isHospitalAppointment_def hospital_text_def list_ex_iff)
  then show ?thesis
    by (simp add: convertAtlasToAppointment_def Let_def reminder_of_def)
qed

text \<open>The work item at the clinic: its type alone maps to medium, the draft is high.\<close>

theorem medical_forces_high_priority_and_reminder_witness:
  "mapTypeToPriority example_runtime (nullish (raw_type clinic_raw) []) = Medium
   \<and> raw_reminder_minutes_before clinic_raw = None
   \<and> priority (convertAtlasToAppointment example_runtime example_now clinic_raw) = High
   \<and> reminder_minutes_before (convertAtlasToAppointment example_runtime example_now clinic_raw)
       = Some 120"
proof -
  have k: "kw_clinic \<in> set medical_keywords"
    by (simp add: medical_keywords_def)
  have "includes_str (toLowerCase example_runtime (nullish (raw_title clinic_raw) [] @ ascii '' ''
           @ nullish (raw_notes clinic_raw) [] @ ascii '' '' @ nullish (raw_location clinic_raw) []))
         kw_clinic"
    by (simp add: clinic_raw_def empty_raw_def example_runtime_def nullish_def ascii_def
        kw_clinic_def ascii_lower_def)
  with k have "(\<exists>k \<in> set medical_keywords.
      includes_str (toLowerCase example_runtime (nullish (raw_title clinic_raw) [] @ ascii '' ''
         @ nullish (raw_notes clinic_raw) [] @ ascii '' '' @ nullish (raw_location clinic_raw) [])) k)
      \<or> includes_str (toLowerCase example_runtime (nullish (raw_type clinic_raw) []))
           (ascii ''medical'')"
    by blast
  from medical_forces_high_priority_and_reminder [OF this, of example_now]
  show ?thesis
    by (simp add: clinic_raw_def empty_raw_def mapTypeToPriority_def example_runtime_def
        nullish_def ascii_def ascii_lower_def)
qed

text \<open>
  Claim C3, where the code departs from it. For an item without date the code takes the
  first ten characters of \<^verbatim>\<open>now.toISOString()\<close>, the date of the current instant in UTC,
  joins it with the time and reads the result as a local time. On a machine three hours
  east of UTC, at 2025-05-12T22:30Z, the local date is 13 May; the date part of an item
  without date is 2025-05-12, and its start is 09:00 local time on 12 May, the instant
  2025-05-12T06:00Z: the day before today, and sixteen hours before the current instant.
\<close>

theorem missing_date_takes_utc_day_read_as_local:
  "toISOString riyadh_runtime riyadh_night = ascii ''2025-05-12T22:30:00.000Z''
   \<and> local_date 180 riyadh_night = ascii ''2025-05-13''
   \<and> datePart riyadh_runtime riyadh_night empty_raw = ascii ''2025-05-12''
   \<and> Date_parse riyadh_runtime (ascii ''2025-05-12T09:00'') = Some 1747029600000
   \<and> start_at (convertAtlasToAppointment riyadh_runtime riyadh_night empty_raw)
       = ascii ''2025-05-12T06:00:00.000Z''
   \<and> local_date 180 1747029600000 = ascii ''2025-05-12''"
proof -
  have iso: "toISOString riyadh_runtime = iso_of_instant"
    and parse: "Date_parse riyadh_runtime = parse_local 180"
    by (simp_all add: riyadh_runtime_def example_runtime_def)
  have n: "iso_of_instant 1747089000000 = ascii ''2025-05-12T22:30:00.000Z''"
    by code_simp
  have l: "local_date 180 1747089000000 = ascii ''2025-05-13''"
    by code_simp
  have p: "parse_local 180 (ascii ''2025-05-12T09:00'') = Some 1747029600000"
    by code_simp
  have s: "iso_of_instant 1747029600000 = ascii ''2025-05-12T06:00:00.000Z''"
    by code_simp
  have l': "local_date 180 1747029600000 = ascii ''2025-05-12''"
    by code_simp
  have f: "raw_date empty_raw = None" "raw_time empty_raw = None"
    by (simp_all add: empty_raw_def)
  have d: "datePart riyadh_runtime riyadh_night empty_raw = ascii ''2025-05-12''"
    by (simp add: datePart_def nullish_def f iso riyadh_night_def n ascii_def)
  have "datePart riyadh_runtime riyadh_night empty_raw @ ascii ''T'' @ timePart empty_raw
          = ascii ''2025-05-12T09:00''"
    by (simp add: d timePart_def nullish_def f ascii_def)
  then have "start_at_of riyadh_runtime riyadh_night empty_raw
               = ascii ''2025-05-12T06:00:00.000Z''"
    by (simp add: start_at_of_def parse p iso s)
  then have "start_at (convertAtlasToAppointment riyadh_runtime riyadh_night empty_raw)
               = ascii ''2025-05-12T06:00:00.000Z''"
    by (simp add: convertAtlasToAppointment_def Let_def)
  with n l p l' d show ?thesis
    by (simp add: iso parse riyadh_night_def)
qed

text \<open>
  Claim C9, as the code has it. The reminder of a draft is the raw value when the raw item
  has one, whatever its sign; 120 when it has none and the item is medical; absent
  otherwise. So the reminder of a draft, when present, is non-negative for every raw item
  whose own value is absent or non-negative.
\<close>

theorem reminder_copied_or_defaulted:
  "reminder_minutes_before (convertAtlasToAppointment rt now raw) =
     (case raw_reminder_minutes_before raw of
        Some m \<Rightarrow> Some m
      | None \<Rightarrow> if isHospitalAppointment rt raw then Some 120 else None)
   \<and> ((\<forall>m. raw_reminder_minutes_before raw = Some m \<longrightarrow> 0 \<le> m) \<longrightarrow>
       (\<forall>n. reminder_minutes_before (convertAtlasToAppointment rt now raw) = Some n \<longrightarrow> 0 \<le> n))"
  by (auto simp add: convertAtlasToAppointment_def Let_def reminder_of_def
      split: option.splits if_splits)

theorem reminder_copied_or_defaulted_witness:
  "raw_reminder_minutes_before thirty_raw = Some 30
   \<and> reminder_minutes_before (convertAtlasToAppointment example_runtime example_now thirty_raw)
       = Some 30
   \<and> raw_reminder_minutes_before clinic_raw = None
   \<and> reminder_minutes_before (convertAtlasToAppointment example_runtime example_now clinic_raw)
       = Some 120"
proof -
  have "isHospitalAppointment example_runtime clinic_raw"
    by (simp add: isHospitalAppointment_def hospital_text_def medical_keywords_def
        clinic_raw_def empty_raw_def example_runtime_def nullish_def ascii_def kw_clinic_def
        ascii_lower_def)
  with reminder_copied_or_defaulted [of example_runtime example_now thirty_raw]
    reminder_copied_or_defaulted [of example_runtime example_now clinic_raw]
  show ?thesis
    by (simp add: thirty_raw_def clinic_raw_def empty_raw_def)
qed

text \<open>A raw reminder of minus five minutes reaches the draft.\<close>

theorem reminder_nonneg_counterexample:
  "reminder_minutes_before (convertAtlasToAppointment example_runtime example_now negative_raw)
     = Some (- 5)
   \<and> \<not> (0 \<le> (- 5 :: int))"
  by (simp add: convertAtlasToAppointment_def Let_def reminder_of_def negative_raw_def
      empty_raw_def)

text \<open>
  Claim C10. A raw reminder of 0 is a value: the draft's reminder is 0, also for a medical
  item, whose default of 120 is for a missing value only. The test before the last push
  is a test for truthiness, so the push does not happen: the parts of the description are
  those that were there after the medical suggestions, and the description is their join.
\<close>

theorem zero_reminder_kept_without_line:
  assumes "raw_reminder_minutes_before raw = Some 0"
  shows "reminder_minutes_before (convertAtlasToAppointment rt now raw) = Some 0
         \<and> description_parts rt raw = parts_after_suggestions rt raw
         \<and> description (convertAtlasToAppointment rt now raw) =
             (if join (ascii '' | '') (parts_after_suggestions rt raw) \<noteq> []
              then Some (join (ascii '' | '') (parts_after_suggestions rt raw)) else None)"
  using assms
  by (simp add: convertAtlasToAppointment_def Let_def reminder_of_def description_parts_def)

theorem zero_reminder_kept_without_line_witness:
  "raw_reminder_minutes_before medical_zero_raw = Some 0
   \<and> isHospitalAppointment example_runtime medical_zero_raw
   \<and> reminder_minutes_before (convertAtlasToAppointment example_runtime example_now medical_zero_raw)
       = Some 0
   \<and> description_parts example_runtime medical_zero_raw
       = [lbl_before @ ascii ''fast'', suggest_after, suggest_alert]"
proof -
  have z: "raw_reminder_minutes_before medical_zero_raw = Some 0"
    by (simp add: medical_zero_raw_def)
  have h: "isHospitalAppointment example_runtime medical_zero_raw"
    by (simp add: isHospitalAppointment_def medical_zero_raw_def empty_raw_def
        example_runtime_def nullish_def ascii_def ascii_lower_def)
  have "parts_after_suggestions example_runtime medical_zero_raw
          = [lbl_before @ ascii ''fast'', suggest_after, suggest_alert]"
    using h
    by (simp add: parts_after_suggestions_def parts_after_tags_def Let_def truthy_str_def
        has_length_def nullish_def medical_zero_raw_def empty_raw_def)
  with z h zero_reminder_kept_without_line [OF z, of example_runtime example_now]
  show ?thesis by simp
qed

subsection \<open>The description\<close>

lemma join_eq_Nil_iff:
  assumes "\<And>p. p \<in> set ps \<Longrightarrow> p \<noteq> []"
  shows "join sep ps = [] \<longleftrightarrow> ps = []"
proof (cases ps)
  case Nil
  then show ?thesis by simp
next
  case (Cons x xs)
  with assms have "x \<noteq> []" by simp
  with Cons show ?thesis by (cases xs) simp_all
qed

lemma parts_after_tags_append:
  "parts_after_tags rt raw =
     (if truthy_str (raw_notes raw) then [nullish (raw_notes raw) []] else [])
     @ (if truthy_str (raw_person raw) then [lbl_with @ nullish (raw_person raw) []] else [])
     @ (if has_length (raw_actions_before raw)
        then [lbl_before @ join (ascii '' | '') (nullish (raw_actions_before raw) [])] else [])
     @ (if has_length (raw_actions_after raw)
        then [lbl_after @ join (ascii '' | '') (nullish (raw_actions_after raw) [])] else [])
     @ (case raw_recurrence raw of
          None \<Rightarrow> []
        | Some rc \<Rightarrow> if truthy_str (pattern rc) \<and> pattern rc \<noteq> Some (ascii ''none'')
                     then [recurrence_line rt rc] else [])
     @ (if has_length (raw_tags raw)
        then [lbl_tags @ join (ascii '', '') (nullish (raw_tags raw) [])] else [])"
  by (simp add: parts_after_tags_def Let_def split: option.splits)

lemma parts_after_suggestions_append:
  "parts_after_suggestions rt raw =
     parts_after_tags rt raw
     @ (if isHospitalAppointment rt raw
        then (if has_length (raw_actions_before raw) then [] else [suggest_before])
             @ (if has_length (raw_actions_after raw) then [] else [suggest_after])
             @ [suggest_alert]
        else [])"
  by (simp add: parts_after_suggestions_def Let_def)

lemma description_parts_append:
  "description_parts rt raw =
     parts_after_suggestions rt raw
     @ (case reminder_of rt raw of
          None \<Rightarrow> []
        | Some n \<Rightarrow> if n \<noteq> 0 then [lbl_reminder @ Number_toString rt n @ lbl_minutes] else [])"
  by (simp add: description_parts_def Let_def split: option.splits)

lemma parts_after_tags_nonempty: "p \<in> set (parts_after_tags rt raw) \<Longrightarrow> p \<noteq> []"
  by (auto simp add: parts_after_tags_append truthy_str_def nullish_def recurrence_line_def
      Let_def lbl_with_def lbl_before_def lbl_after_def lbl_recurrence_def lbl_tags_def
      split: option.splits if_splits)

lemma description_parts_nonempty: "p \<in> set (description_parts rt raw) \<Longrightarrow> p \<noteq> []"
  by (auto simp add: description_parts_append parts_after_suggestions_append
      suggest_before_def suggest_after_def suggest_alert_def lbl_reminder_def
      dest: parts_after_tags_nonempty split: option.splits if_splits)

lemma description_of_parts:
  "description (convertAtlasToAppointment rt now raw) =
     (if description_parts rt raw = [] then None
      else Some (join (ascii '' | '') (description_parts rt raw)))"
  using join_eq_Nil_iff [of "description_parts rt raw" "ascii '' | ''"]
  by (simp add: convertAtlasToAppointment_def Let_def description_parts_nonempty)

text \<open>
  Claim C5, as the code has it. The parts of the description are, in this order: the
  notes; ``with: person''; ``before: '' and the pre-actions; ``after: '' and the
  post-actions; the recurrence line when the pattern is not empty and not ``none''; ``tags: ''
  and the tags; for a medical item, the suggestion before (without raw pre-actions), the
  suggestion after (without raw post-actions) and the suggested alert; and last the
  ``reminder before'' line when the draft has a reminder value that is not zero. A part is
  there only when its source is not empty. The description is the parts joined by `` | '',
  and it is absent, not empty, when there is no part. For the item whose only populated
  field is the recurrence weekly, every 2, on sat and mon, on an engine that lower-cases
  two blanks and the empty string to themselves, the description is the recurrence line.
\<close>

theorem description_composition:
  "description_parts rt raw =
     (if truthy_str (raw_notes raw) then [nullish (raw_notes raw) []] else [])
     @ (if truthy_str (raw_person raw) then [lbl_with @ nullish (raw_person raw) []] else [])
     @ (if has_length (raw_actions_before raw)
        then [lbl_before @ join (ascii '' | '') (nullish (raw_actions_before raw) [])] else [])
     @ (if has_length (raw_actions_after raw)
        then [lbl_after @ join (ascii '' | '') (nullish (raw_actions_after raw) [])] else [])
     @ (case raw_recurrence raw of
          None \<Rightarrow> []
        | Some rc \<Rightarrow> if truthy_str (pattern rc) \<and> pattern rc \<noteq> Some (ascii ''none'')
                     then [recurrence_line rt rc] else [])
     @ (if has_length (raw_tags raw)
        then [lbl_tags @ join (ascii '', '') (nullish (raw_tags raw) [])] else [])
     @ (if isHospitalAppointment rt raw
        then (if has_length (raw_actions_before raw) then [] else [suggest_before])
             @ (if has_length (raw_actions_after raw) then [] else [suggest_after])
             @ [suggest_alert]
        else [])
     @ (case reminder_minutes_before (convertAtlasToAppointment rt now raw) of
          None \<Rightarrow> []
        | Some n \<Rightarrow> if n \<noteq> 0 then [lbl_reminder @ Number_toString rt n @ lbl_minutes] else [])
   \<and> (\<forall>p \<in> set (description_parts rt raw). p \<noteq> [])
   \<and> description (convertAtlasToAppointment rt now raw) =
       (if description_parts rt raw = [] then None
        else Some (join (ascii '' | '') (description_parts rt raw)))
   \<and> (toLowerCase rt (ascii ''  '') = ascii ''  '' \<and> toLowerCase rt [] = [] \<longrightarrow>
        description (convertAtlasToAppointment rt now weekly_raw) =
          Some (lbl_recurrence @ ascii ''weekly '' @ lbl_every @ ascii ''2 (sat,mon)''))"
proof (intro conjI impI ballI)
  have r: "reminder_minutes_before (convertAtlasToAppointment rt now raw) = reminder_of rt raw"
    by (simp add: convertAtlasToAppointment_def Let_def)
  show "description_parts rt raw =
     (if truthy_str (raw_notes raw) then [nullish (raw_notes raw) []] else [])
     @ (if truthy_str (raw_person raw) then [lbl_with @ nullish (raw_person raw) []] else [])
     @ (if has_length (raw_actions_before raw)
        then [lbl_before @ join (ascii '' | '') (nullish (raw_actions_before raw) [])] else [])
     @ (if has_length (raw_actions_after raw)
        then [lbl_after @ join (ascii '' | '') (nullish (raw_actions_after raw) [])] else [])
     @ (case raw_recurrence raw of
          None \<Rightarrow> []
        | Some rc \<Rightarrow> if truthy_str (pattern rc) \<and> pattern rc \<noteq> Some (ascii ''none'')
                     then [recurrence_line rt rc] else [])
     @ (if has_length (raw_tags raw)
        then [lbl_tags @ join (ascii '', '') (nullish (raw_tags raw) [])] else [])
     @ (if isHospitalAppointment rt raw
        then (if has_length (raw_actions_before raw) then [] else [suggest_before])
             @ (if has_length (raw_actions_after raw) then [] else [suggest_after])
             @ [suggest_alert]
        else [])
     @ (case reminder_minutes_before (convertAtlasToAppointment rt now raw) of
          None \<Rightarrow> []
        | Some n \<Rightarrow> if n \<noteq> 0 then [lbl_reminder @ Number_toString rt n @ lbl_minutes] else [])"
    unfolding r
    by (simp only: description_parts_append parts_after_suggestions_append
        parts_after_tags_append append_assoc)
next
  fix p assume "p \<in> set (description_parts rt raw)"
  then show "p \<noteq> []" by (rule description_parts_nonempty)
next
  show "description (convertAtlasToAppointment rt now raw) =
       (if description_parts rt raw = [] then None
        else Some (join (ascii '' | '') (description_parts rt raw)))"
    by (rule description_of_parts)
next
  assume lc: "toLowerCase rt (ascii ''  '') = ascii ''  '' \<and> toLowerCase rt [] = []"
  then have l2: "toLowerCase rt [0x20, 0x20] = [0x20, 0x20]" and l0: "toLowerCase rt [] = []"
    by (simp_all add: ascii_def)
  have nh: "\<not> isHospitalAppointment rt weekly_raw"
    by (simp add: isHospitalAppointment_def hospital_text_def medical_keywords_def
        weekly_raw_def empty_raw_def nullish_def ascii_def l2 l0
        kw_hospital_def kw_clinic_def kw_analysis_def kw_medicine_def kw_review_def
        kw_doctor_def)
  have two: "Number_toString rt 2 = ascii ''2''"
    by (simp add: Number_toString_def digits_of.simps ascii_def)
  have "description_parts rt weekly_raw =
          [lbl_recurrence @ ascii ''weekly '' @ lbl_every @ ascii ''2 (sat,mon)'']"
    using nh
    by (simp add: description_parts_append parts_after_suggestions_append
        parts_after_tags_append reminder_of_def truthy_str_def has_length_def
        recurrence_line_def two nullish_def Let_def weekly_raw_def empty_raw_def ascii_def)
  then show "description (convertAtlasToAppointment rt now weekly_raw) =
          Some (lbl_recurrence @ ascii ''weekly '' @ lbl_every @ ascii ''2 (sat,mon)'')"
    by (simp add: description_of_parts)
qed

theorem description_composition_witness:
  "toLowerCase example_runtime (ascii ''  '') = ascii ''  ''
   \<and> toLowerCase example_runtime [] = []
   \<and> description (convertAtlasToAppointment example_runtime example_now weekly_raw) =
       Some (lbl_recurrence @ ascii ''weekly '' @ lbl_every @ ascii ''2 (sat,mon)'')
   \<and> description_parts example_runtime thirty_raw
       = [lbl_reminder @ ascii ''30'' @ lbl_minutes]"
proof -
  have lc: "toLowerCase example_runtime (ascii ''  '') = ascii ''  ''
            \<and> toLowerCase example_runtime [] = []"
    by (simp add: example_runtime_def ascii_def ascii_lower_def)
  have nh: "\<not> isHospitalAppointment example_runtime thirty_raw"
    by (simp add: isHospitalAppointment_def hospital_text_def medical_keywords_def
        thirty_raw_def empty_raw_def example_runtime_def nullish_def ascii_def ascii_lower_def
        kw_hospital_def kw_clinic_def kw_analysis_def kw_medicine_def kw_review_def
        kw_doctor_def)
  have thirty: "Number_toString rt 30 = ascii ''30''" for rt
    by (simp add: Number_toString_def digits_of.simps ascii_def)
  have r: "reminder_minutes_before
             (convertAtlasToAppointment example_runtime example_now thirty_raw) = Some 30"
    by (simp add: convertAtlasToAppointment_def Let_def reminder_of_def thirty_raw_def
        empty_raw_def)
  note c = description_composition [of example_runtime thirty_raw example_now,
      THEN conjunct1, unfolded r]
  have "description_parts example_runtime thirty_raw
          = [lbl_reminder @ ascii ''30'' @ lbl_minutes]"
    using c nh
    by (simp add: thirty truthy_str_def has_length_def thirty_raw_def empty_raw_def)
  moreover note description_composition [of example_runtime weekly_raw example_now,
      THEN conjunct2, THEN conjunct2, THEN conjunct2, rule_format, OF lc]
  ultimately show ?thesis using lc by blast
qed

text \<open>The item whose only field is a reminder of zero minutes: the draft has the
  reminder value, and no description at all.\<close>

theorem description_zero_reminder_counterexample:
  "reminder_minutes_before (convertAtlasToAppointment example_runtime example_now zero_raw)
     = Some 0
   \<and> description (convertAtlasToAppointment example_runtime example_now zero_raw) = None"
proof -
  have "\<not> isHospitalAppointment example_runtime zero_raw"
    by (simp add: isHospitalAppointment_def hospital_text_def medical_keywords_def
        zero_raw_def empty_raw_def example_runtime_def nullish_def ascii_def ascii_lower_def
        kw_hospital_def kw_clinic_def kw_analysis_def kw_medicine_def kw_review_def
        kw_doctor_def)
  then have "description_parts example_runtime zero_raw = []"
    by (simp add: description_parts_append parts_after_suggestions_append
        parts_after_tags_append reminder_of_def truthy_str_def has_length_def zero_raw_def
        empty_raw_def)
  then show ?thesis
    by (simp add: description_of_parts)
      (simp add: convertAtlasToAppointment_def Let_def reminder_of_def zero_raw_def
        empty_raw_def)
qed

section \<open>Properties of the response extractor\<close>

text \<open>
  Claim C2. When the direct parse of the candidate fails, the handler of that failure
  looks for the brace-delimited span. Without such a span the extractor throws the error
  that asks to retry and names the \<^verbatim>\<open>appointments\<close> object. With such a span it parses
  the span outside any \<^verbatim>\<open>try\<close>: when this second parse fails too, what the extractor
  throws is the \<^verbatim>\<open>SyntaxError\<close> of \<^verbatim>\<open>JSON.parse\<close>, with the engine's message, and not
  the error of the claim.
\<close>

theorem extract_second_parse_unguarded:
  assumes "JSON_parse rt (candidate rawContent) = Inl m"
  shows "(braceMatch (candidate rawContent) = None \<longrightarrow>
            extractAppointmentsJSON rt rawContent = Inl (Error msg_unparseable))
         \<and> (\<forall>b m'. braceMatch (candidate rawContent) = Some b \<and> JSON_parse rt b = Inl m' \<longrightarrow>
               extractAppointmentsJSON rt rawContent = Inl (SyntaxError m'))"
  using assms by (simp add: extractAppointmentsJSON_def Let_def)

theorem extract_second_parse_unguarded_witness:
  "candidate (ascii ''{not json}'') = ascii ''{not json}''
   \<and> braceMatch (ascii ''{not json}'') = Some (ascii ''{not json}'')
   \<and> JSON_parse example_runtime (ascii ''{not json}'') = Inl (ascii ''Unexpected token'')
   \<and> extractAppointmentsJSON example_runtime (ascii ''{not json}'')
       = Inl (SyntaxError (ascii ''Unexpected token''))
   \<and> extractAppointmentsJSON example_runtime (ascii ''{not json}'') \<noteq> Inl (Error msg_unparseable)
   \<and> extractAppointmentsJSON example_runtime (ascii ''no json here'') = Inl (Error msg_unparseable)"
proof -
  have c: "candidate (ascii ''{not json}'') = ascii ''{not json}''"
    by (simp add: candidate_def fenceMatch_def fence_def ascii_def)
  have b: "braceMatch (ascii ''{not json}'') = Some (ascii ''{not json}'')"
    by (simp add: braceMatch_def ascii_def)
  have p: "JSON_parse example_runtime (ascii ''{not json}'') = Inl (ascii ''Unexpected token'')"
    by (simp add: example_runtime_def empty_reply_text_def envelope_text_def dq_def ascii_def)
  have c': "candidate (ascii ''no json here'') = ascii ''no json here''"
    by (simp add: candidate_def fenceMatch_def fence_def ascii_def)
  have b': "braceMatch (ascii ''no json here'') = None"
    by (simp add: braceMatch_def ascii_def)
  have p': "JSON_parse example_runtime (ascii ''no json here'') = Inl (ascii ''Unexpected token'')"
    by (simp add: example_runtime_def empty_reply_text_def envelope_text_def dq_def ascii_def)
  from extract_second_parse_unguarded [of example_runtime "ascii ''{not json}''"
      "ascii ''Unexpected token''"] c b p
  have "extractAppointmentsJSON example_runtime (ascii ''{not json}'')
          = Inl (SyntaxError (ascii ''Unexpected token''))"
    by simp
  moreover from extract_second_parse_unguarded [of example_runtime "ascii ''no json here''"
      "ascii ''Unexpected token''"] c' b' p'
  have "extractAppointmentsJSON example_runtime (ascii ''no json here'') = Inl (Error msg_unparseable)"
    by simp
  ultimately show ?thesis using c b p by simp
qed

section \<open>Properties of the completion client and the orchestrator\<close>

lemma rate_limit_message_has_429:
  "includes_str (msg_rate_limit_prefix @ txt) (ascii ''429'')"
  by (simp add: msg_rate_limit_prefix_def ascii_def)

lemma isRateLimitError_rate_limit_message:
  "isRateLimitError rt (Error (msg_rate_limit_prefix @ txt))"
  by (simp add: isRateLimitError_def rate_limit_message_has_429)

lemma includes_429_after_500:
  "includes_str (ascii ''Atlas API error: '' @ Number_toString rt 500 @ ascii '' '' @ txt) (ascii ''429'')
     = includes_str txt (ascii ''429'')"
  by (cases "txt") (simp_all add: Number_toString_def digits_of.simps ascii_def)

lemma handleAiSubmit_client_failure:
  assumes "resolve_apiKey (viteEnv env) (nodeEnv env) \<noteq> []"
    and "trim (aiText u) \<noteq> []"
    and "handle_response rt (fetch env (build_request (resolve_url (viteEnv env) (nodeEnv env))
           (resolve_apiKey (viteEnv env) (nodeEnv env)) (trim (aiText u)))) = Inl e"
  shows "handleAiSubmit rt env u =
           Some \<lparr> ui = on_error rt e (u \<lparr> aiError := None, aiSuccess := None, aiLoading := True \<rparr>),
                  requests = [build_request (resolve_url (viteEnv env) (nodeEnv env))
                                (resolve_apiKey (viteEnv env) (nodeEnv env)) (trim (aiText u))],
                  add_calls = [], refetched = False \<rparr>"
  using assms by (simp add: handleAiSubmit_def sendToAtlas_def Let_def)

text \<open>
  Claim C4, as the code has it. A response whose status is not a success status makes the
  client throw: the rate-limit error, whose message ends with the body, exactly when the
  status is 429 or the lower-cased body contains ``too many requests'' or ``only request
  this after''; the transport error ``Atlas API error: status body'' in every other case;
  the two messages never coincide. The orchestrator tells a rate limit by the message:
  it shows the wait-and-retry outcome for every rate-limit error, and for a transport
  error too when its message contains ``429'' or, lower-cased, ``too many requests''; it
  shows the message of a transport error as it is in every other case. For a status of
  500 the message contains ``429'' exactly when the body does.
\<close>

theorem rate_limit_classification:
  fixes env :: "'a app_env_scheme" and u :: ui_state and rt :: js_runtime
    and st :: int and body :: jsstring
  defines "req \<equiv> build_request (resolve_url (viteEnv env) (nodeEnv env))
                      (resolve_apiKey (viteEnv env) (nodeEnv env)) (trim (aiText u))"
    and "u1 \<equiv> u \<lparr> aiError := None, aiSuccess := None, aiLoading := True \<rparr>"
    and "limited \<equiv> st = 429 \<or> includes_str (toLowerCase rt body) (ascii ''too many requests'')
                      \<or> includes_str (toLowerCase rt body) (ascii ''only request this after'')"
    and "transport \<equiv> ascii ''Atlas API error: '' @ Number_toString rt st @ ascii '' '' @ body"
  assumes key: "resolve_apiKey (viteEnv env) (nodeEnv env) \<noteq> []"
    and nonblank: "trim (aiText u) \<noteq> []"
    and resp: "fetch env req = Response st body"
    and fail: "\<not> res_ok st"
  shows "sendToAtlas rt env (trim (aiText u)) =
           (if limited then Inl (Error (msg_rate_limit_prefix @ body)) else Inl (Error transport),
            [req])
         \<and> msg_rate_limit_prefix @ body \<noteq> transport
         \<and> (limited \<longrightarrow>
              handleAiSubmit rt env u =
                Some \<lparr> ui = u1 \<lparr> aiError := Some msg_wait_retry,
                                 errorModal := Some (modal_title, msg_wait_retry_modal),
                                 aiLoading := False \<rparr>,
                       requests = [req], add_calls = [], refetched = False \<rparr>)
         \<and> (\<not> limited \<longrightarrow>
              handleAiSubmit rt env u =
                Some \<lparr> ui = (if includes_str transport (ascii ''429'')
                               \<or> includes_str (toLowerCase rt transport) (ascii ''too many requests'')
                            then u1 \<lparr> aiError := Some msg_wait_retry,
                                      errorModal := Some (modal_title, msg_wait_retry_modal),
                                      aiLoading := False \<rparr>
                            else u1 \<lparr> aiError := Some transport,
                                      errorModal := Some (modal_title, transport),
                                      aiLoading := False \<rparr>),
                       requests = [req], add_calls = [], refetched = False \<rparr>)
         \<and> msg_wait_retry \<noteq> transport \<and> msg_wait_retry_modal \<noteq> transport
         \<and> (st = 500 \<longrightarrow>
              includes_str transport (ascii ''429'') = includes_str body (ascii ''429''))"
proof (intro conjI impI)
  have hr: "handle_response rt (fetch env req) =
              (if limited then Inl (Error (msg_rate_limit_prefix @ body)) else Inl (Error transport))"
    using fail by (simp add: resp handle_response_def Let_def limited_def transport_def)
  show "sendToAtlas rt env (trim (aiText u)) =
           (if limited then Inl (Error (msg_rate_limit_prefix @ body)) else Inl (Error transport),
            [req])"
    using key hr by (simp add: sendToAtlas_def Let_def req_def)
  show "msg_rate_limit_prefix @ body \<noteq> transport"
    by (simp add: msg_rate_limit_prefix_def transport_def ascii_def)
  show "msg_wait_retry \<noteq> transport"
    by (simp add: msg_wait_retry_def transport_def ascii_def)
  show "msg_wait_retry_modal \<noteq> transport"
    by (simp add: msg_wait_retry_modal_def transport_def ascii_def)
  {
    assume limited
    with hr have "handle_response rt (fetch env req) = Inl (Error (msg_rate_limit_prefix @ body))"
      by simp
    from handleAiSubmit_client_failure [OF key nonblank this [unfolded req_def]]
    show "handleAiSubmit rt env u =
            Some \<lparr> ui = u1 \<lparr> aiError := Some msg_wait_retry,
                             errorModal := Some (modal_title, msg_wait_retry_modal),
                             aiLoading := False \<rparr>,
                   requests = [req], add_calls = [], refetched = False \<rparr>"
      by (simp add: on_error_def isRateLimitError_rate_limit_message req_def u1_def)
  }
  {
    assume "\<not> limited"
    with hr have "handle_response rt (fetch env req) = Inl (Error transport)"
      by simp
    from handleAiSubmit_client_failure [OF key nonblank this [unfolded req_def]]
    show "handleAiSubmit rt env u =
            Some \<lparr> ui = (if includes_str transport (ascii ''429'')
                           \<or> includes_str (toLowerCase rt transport) (ascii ''too many requests'')
                        then u1 \<lparr> aiError := Some msg_wait_retry,
                                  errorModal := Some (modal_title, msg_wait_retry_modal),
                                  aiLoading := False \<rparr>
                        else u1 \<lparr> aiError := Some transport,
                                  errorModal := Some (modal_title, transport),
                                  aiLoading := False \<rparr>),
                   requests = [req], add_calls = [], refetched = False \<rparr>"
      by (simp add: on_error_def isRateLimitError_def Let_def req_def u1_def)
  }
  {
    assume "st = 500"
    then show "includes_str transport (ascii ''429'') = includes_str body (ascii ''429'')"
      by (simp add: transport_def includes_429_after_500)
  }
qed

text \<open>
  A response of status 500 whose body names an upstream 429: the client throws the
  transport error, and the orchestrator shows the wait-and-retry outcome.
\<close>

theorem server_error_naming_429_counterexample:
  "\<not> res_ok 500
   \<and> fst (sendToAtlas example_runtime (example_env (Response 500 (ascii ''upstream 429'')))
          (ascii ''dentist tomorrow''))
       = Inl (Error (ascii ''Atlas API error: 500 upstream 429''))
   \<and> map_option (\<lambda>r. aiError (ui r))
         (handleAiSubmit example_runtime (example_env (Response 500 (ascii ''upstream 429'')))
            (example_ui (ascii ''dentist tomorrow'')))
       = Some (Some msg_wait_retry)"
proof -
  have key: "resolve_apiKey (viteEnv (example_env a)) (nodeEnv (example_env a)) = ascii ''secret''"
    for a
    by (simp add: example_env_def resolve_apiKey_def getEnvValue_def or_str_def truthy_str_def
        nullish_def ascii_def)
  have tr: "trim (ascii ''dentist tomorrow'') = ascii ''dentist tomorrow''"
    by (simp add: trim_def is_js_space_def ascii_def)
  have ne: "ascii ''dentist tomorrow'' \<noteq> []"
    by (simp add: ascii_def)
  have n: "Number_toString rt 500 = ascii ''500''" for rt
    by (simp add: Number_toString_def digits_of.simps ascii_def)
  have s: "fst (sendToAtlas example_runtime (example_env (Response 500 (ascii ''upstream 429'')))
             (ascii ''dentist tomorrow''))
           = Inl (Error (ascii ''Atlas API error: 500 upstream 429''))"
    by (simp add: sendToAtlas_def Let_def key)
      (simp add: example_env_def handle_response_def res_ok_def Let_def n example_runtime_def
        ascii_def ascii_lower_def)
  have r: "isRateLimitError example_runtime (Error (ascii ''Atlas API error: 500 upstream 429''))"
    by (simp add: isRateLimitError_def ascii_def)
  have "handleAiSubmit example_runtime (example_env (Response 500 (ascii ''upstream 429'')))
          (example_ui (ascii ''dentist tomorrow''))
        = Some \<lparr> ui = on_error example_runtime (Error (ascii ''Atlas API error: 500 upstream 429''))
                        ((example_ui (ascii ''dentist tomorrow''))
                           \<lparr> aiError := None, aiSuccess := None, aiLoading := True \<rparr>),
                 requests = snd (sendToAtlas example_runtime
                                   (example_env (Response 500 (ascii ''upstream 429'')))
                                   (ascii ''dentist tomorrow'')),
                 add_calls = [], refetched = False \<rparr>"
    using s ne
    by (cases "sendToAtlas example_runtime (example_env (Response 500 (ascii ''upstream 429'')))
                 (ascii ''dentist tomorrow'')")
      (simp add: handleAiSubmit_def Let_def example_ui_def tr)
  then show ?thesis
    using s r by (simp add: on_error_def res_ok_def)
qed

theorem rate_limit_classification_witness:
  "\<not> res_ok 429
   \<and> sendToAtlas example_runtime (example_env (Response 429 (ascii ''Too Many Requests'')))
         (trim (aiText (example_ui (ascii ''dentist tomorrow''))))
       = (Inl (Error (msg_rate_limit_prefix @ ascii ''Too Many Requests'')),
          [build_request default_url (ascii ''secret'') (ascii ''dentist tomorrow'')])
   \<and> map_option (\<lambda>r. aiError (ui r))
         (handleAiSubmit example_runtime (example_env (Response 429 (ascii ''Too Many Requests'')))
            (example_ui (ascii ''dentist tomorrow'')))
       = Some (Some msg_wait_retry)
   \<and> map_option (\<lambda>r. aiError (ui r))
         (handleAiSubmit example_runtime (example_env (Response 500 (ascii ''boom'')))
            (example_ui (ascii ''dentist tomorrow'')))
       = Some (Some (ascii ''Atlas API error: 500 boom''))"
proof -
  have key: "resolve_apiKey (viteEnv (example_env a)) (nodeEnv (example_env a)) = ascii ''secret''"
    for a
    by (simp add: example_env_def resolve_apiKey_def getEnvValue_def or_str_def truthy_str_def
        nullish_def ascii_def)
  have url: "resolve_url (viteEnv (example_env a)) (nodeEnv (example_env a)) = default_url"
    for a
    by (simp add: example_env_def resolve_url_def getEnvValue_def or_str_def truthy_str_def
        nullish_def ascii_def default_url_def)
  have key': "resolve_apiKey (viteEnv (example_env a)) (nodeEnv (example_env a)) \<noteq> []" for a
    by (simp add: key ascii_def)
  have tr: "trim (aiText (example_ui (ascii ''dentist tomorrow''))) = ascii ''dentist tomorrow''"
    by (simp add: example_ui_def trim_def is_js_space_def ascii_def)
  have nb: "trim (aiText (example_ui (ascii ''dentist tomorrow''))) \<noteq> []"
    by (simp add: tr) (simp add: ascii_def)
  have resp: "fetch (example_env a) r = a" for a r
    by (simp add: example_env_def)
  have f429: "\<not> res_ok 429" and f500: "\<not> res_ok 500"
    by (simp_all add: res_ok_def)
  have n: "Number_toString rt 500 = ascii ''500''" for rt
    by (simp add: Number_toString_def digits_of.simps ascii_def)
  note a = rate_limit_classification [where env = "example_env (Response 429 (ascii ''Too Many Requests''))"
      and u = "example_ui (ascii ''dentist tomorrow'')" and rt = example_runtime,
      OF key' nb resp f429]
  note b = rate_limit_classification [where env = "example_env (Response 500 (ascii ''boom''))"
      and u = "example_ui (ascii ''dentist tomorrow'')" and rt = example_runtime,
      OF key' nb resp f500]
  have nl: "\<not> includes_str (toLowerCase example_runtime (ascii ''boom'')) (ascii ''too many requests'')"
    "\<not> includes_str (toLowerCase example_runtime (ascii ''boom'')) (ascii ''only request this after'')"
    "\<not> includes_str (ascii ''Atlas API error: '' @ Number_toString example_runtime 500 @ ascii '' '' @ ascii ''boom'')
          (ascii ''429'')"
    "\<not> includes_str (toLowerCase example_runtime
            (ascii ''Atlas API error: '' @ Number_toString example_runtime 500 @ ascii '' '' @ ascii ''boom''))
          (ascii ''too many requests'')"
    by (simp_all add: n example_runtime_def ascii_def ascii_lower_def)
  have m: "ascii ''Atlas API error: '' @ Number_toString example_runtime 500 @ ascii '' '' @ ascii ''boom''
           = ascii ''Atlas API error: 500 boom''"
    by (simp add: n ascii_def)
  have 1: "sendToAtlas example_runtime (example_env (Response 429 (ascii ''Too Many Requests'')))
         (trim (aiText (example_ui (ascii ''dentist tomorrow''))))
       = (Inl (Error (msg_rate_limit_prefix @ ascii ''Too Many Requests'')),
          [build_request default_url (ascii ''secret'') (ascii ''dentist tomorrow'')])"
    using a [THEN conjunct1] by (simp add: key url tr)
  have 2: "map_option (\<lambda>r. aiError (ui r))
         (handleAiSubmit example_runtime (example_env (Response 429 (ascii ''Too Many Requests'')))
            (example_ui (ascii ''dentist tomorrow'')))
       = Some (Some msg_wait_retry)"
    using a [THEN conjunct2, THEN conjunct2, THEN conjunct1] by simp
  have 3: "map_option (\<lambda>r. aiError (ui r))
         (handleAiSubmit example_runtime (example_env (Response 500 (ascii ''boom'')))
            (example_ui (ascii ''dentist tomorrow'')))
       = Some (Some (ascii ''Atlas API error: 500 boom''))"
    using b [THEN conjunct2, THEN conjunct2, THEN conjunct2, THEN conjunct1] nl
    by (simp add: m)
  from 1 2 3 f429 show ?thesis by simp
qed

lemma getEnvValue_nonempty: "getEnvValue k v n = Some s \<Longrightarrow> s \<noteq> []"
  by (auto simp add: getEnvValue_def or_str_def truthy_str_def split: if_splits option.splits)

lemma or_str_getEnvValue:
  "or_str (getEnvValue k v n) b = (case getEnvValue k v n of Some s \<Rightarrow> Some s | None \<Rightarrow> b)"
  by (auto simp add: or_str_def truthy_str_def split: option.splits dest: getEnvValue_nonempty)

lemma first_configured_nonempty:
  assumes "\<forall>x \<in> set xs. x \<noteq> Some []" and "\<exists>x \<in> set xs. x \<noteq> None"
  shows "first_configured xs [] \<noteq> []"
  using assms by (induction xs "[] :: jsstring" rule: first_configured.induct) auto

text \<open>
  Claim C7. A variable is read from the first table and then from the second, and counts
  only when it is set to a non-empty string. The credential is the first variable that
  counts among \<^verbatim>\<open>VITE_ATLAS_API_KEY\<close>, \<^verbatim>\<open>VITE_ATLASCLOUD_API_KEY\<close>, \<^verbatim>\<open>ATLAS_API_KEY\<close>
  and \<^verbatim>\<open>ATLASCLOUD_API_KEY\<close>, in this order; when none counts, the client throws the
  configuration error and hands no request to the network. The URL is the first variable
  that counts among the four names with \<^verbatim>\<open>URL\<close> for \<^verbatim>\<open>KEY\<close>, and the fixed endpoint when
  none counts; with a credential, the one request goes to that URL and carries the
  credential as bearer.
\<close>

theorem credential_and_url_resolution:
  fixes env :: "'a client_env_scheme" and rt :: js_runtime and userText :: jsstring
  defines "look \<equiv> \<lambda>k. getEnvValue (ascii k) (viteEnv env) (nodeEnv env)"
  shows "getEnvValue k v n =
           (let a = (case v of None \<Rightarrow> None | Some e \<Rightarrow> e k);
                b = (case n of None \<Rightarrow> None | Some e \<Rightarrow> e k)
            in if a \<noteq> None \<and> a \<noteq> Some [] then a
               else if b \<noteq> None \<and> b \<noteq> Some [] then b else None)
         \<and> resolve_apiKey (viteEnv env) (nodeEnv env) =
             first_configured
               [look ''VITE_ATLAS_API_KEY'', look ''VITE_ATLASCLOUD_API_KEY'',
                look ''ATLAS_API_KEY'', look ''ATLASCLOUD_API_KEY''] []
         \<and> resolve_url (viteEnv env) (nodeEnv env) =
             first_configured
               [look ''VITE_ATLAS_API_URL'', look ''VITE_ATLASCLOUD_API_URL'',
                look ''ATLAS_API_URL'', look ''ATLASCLOUD_API_URL''] default_url
         \<and> (look ''VITE_ATLAS_API_KEY'' = None \<and> look ''VITE_ATLASCLOUD_API_KEY'' = None
              \<and> look ''ATLAS_API_KEY'' = None \<and> look ''ATLASCLOUD_API_KEY'' = None \<longrightarrow>
              sendToAtlas rt env userText = (Inl (Error msg_no_key), []))
         \<and> (\<not> (look ''VITE_ATLAS_API_KEY'' = None \<and> look ''VITE_ATLASCLOUD_API_KEY'' = None
                 \<and> look ''ATLAS_API_KEY'' = None \<and> look ''ATLASCLOUD_API_KEY'' = None) \<longrightarrow>
              (\<exists>req. snd (sendToAtlas rt env userText) = [req]
                  \<and> fst (sendToAtlas rt env userText) = handle_response rt (fetch env req)
                  \<and> req_url req = resolve_url (viteEnv env) (nodeEnv env)
                  \<and> req_headers req =
                      [(ascii ''Content-Type'', ascii ''application/json''),
                       (ascii ''Authorization'',
                        ascii ''Bearer '' @ resolve_apiKey (viteEnv env) (nodeEnv env))]))"
proof -
  have g: "getEnvValue k v n =
           (let a = (case v of None \<Rightarrow> None | Some e \<Rightarrow> e k);
                b = (case n of None \<Rightarrow> None | Some e \<Rightarrow> e k)
            in if a \<noteq> None \<and> a \<noteq> Some [] then a
               else if b \<noteq> None \<and> b \<noteq> Some [] then b else None)"
    by (auto simp add: getEnvValue_def or_str_def truthy_str_def Let_def split: option.splits)
  have k: "resolve_apiKey (viteEnv env) (nodeEnv env) =
             first_configured
               [look ''VITE_ATLAS_API_KEY'', look ''VITE_ATLASCLOUD_API_KEY'',
                look ''ATLAS_API_KEY'', look ''ATLASCLOUD_API_KEY''] []"
    by (simp add: resolve_apiKey_def look_def or_str_getEnvValue nullish_def
        split: option.splits)
  have u: "resolve_url (viteEnv env) (nodeEnv env) =
             first_configured
               [look ''VITE_ATLAS_API_URL'', look ''VITE_ATLASCLOUD_API_URL'',
                look ''ATLAS_API_URL'', look ''ATLASCLOUD_API_URL''] default_url"
    by (simp add: resolve_url_def look_def or_str_getEnvValue nullish_def
        split: option.splits)
  have none: "sendToAtlas rt env userText = (Inl (Error msg_no_key), [])"
    if "look ''VITE_ATLAS_API_KEY'' = None \<and> look ''VITE_ATLASCLOUD_API_KEY'' = None
        \<and> look ''ATLAS_API_KEY'' = None \<and> look ''ATLASCLOUD_API_KEY'' = None"
    using that by (simp add: sendToAtlas_def Let_def k)
  have some: "\<exists>req. snd (sendToAtlas rt env userText) = [req]
                  \<and> fst (sendToAtlas rt env userText) = handle_response rt (fetch env req)
                  \<and> req_url req = resolve_url (viteEnv env) (nodeEnv env)
                  \<and> req_headers req =
                      [(ascii ''Content-Type'', ascii ''application/json''),
                       (ascii ''Authorization'',
                        ascii ''Bearer '' @ resolve_apiKey (viteEnv env) (nodeEnv env))]"
    if "\<not> (look ''VITE_ATLAS_API_KEY'' = None \<and> look ''VITE_ATLASCLOUD_API_KEY'' = None
            \<and> look ''ATLAS_API_KEY'' = None \<and> look ''ATLASCLOUD_API_KEY'' = None)"
  proof -
    have "look x \<noteq> Some []" for x
      using getEnvValue_nonempty [of "ascii x" "viteEnv env" "nodeEnv env" "[]"]
      by (auto simp add: look_def)
    with that have "resolve_apiKey (viteEnv env) (nodeEnv env) \<noteq> []"
      unfolding k by (intro first_configured_nonempty) auto
    then show ?thesis
      by (simp add: sendToAtlas_def Let_def build_request_def)
  qed
  from g k u none some show ?thesis by blast
qed

theorem credential_and_url_resolution_witness:
  "getEnvValue (ascii ''VITE_ATLAS_API_KEY'') (viteEnv (example_env (Response 200 [])))
        (nodeEnv (example_env (Response 200 []))) = None
   \<and> getEnvValue (ascii ''ATLAS_API_KEY'') (viteEnv (example_env (Response 200 [])))
        (nodeEnv (example_env (Response 200 []))) = Some (ascii ''secret'')
   \<and> resolve_apiKey (viteEnv (example_env (Response 200 []))) (nodeEnv (example_env (Response 200 [])))
        = ascii ''secret''
   \<and> resolve_url (viteEnv (example_env (Response 200 []))) (nodeEnv (example_env (Response 200 [])))
        = default_url
   \<and> sendToAtlas example_runtime keyless_env (ascii ''dentist tomorrow'')
        = (Inl (Error msg_no_key), [])"
proof -
  have l: "getEnvValue (ascii ''VITE_ATLAS_API_KEY'') (viteEnv (example_env (Response 200 [])))
             (nodeEnv (example_env (Response 200 []))) = None"
    "getEnvValue (ascii ''VITE_ATLASCLOUD_API_KEY'') (viteEnv (example_env (Response 200 [])))
             (nodeEnv (example_env (Response 200 []))) = None"
    "getEnvValue (ascii ''ATLAS_API_KEY'') (viteEnv (example_env (Response 200 [])))
             (nodeEnv (example_env (Response 200 []))) = Some (ascii ''secret'')"
    "getEnvValue (ascii ''VITE_ATLAS_API_URL'') (viteEnv (example_env (Response 200 [])))
             (nodeEnv (example_env (Response 200 []))) = None"
    "getEnvValue (ascii ''VITE_ATLASCLOUD_API_URL'') (viteEnv (example_env (Response 200 [])))
             (nodeEnv (example_env (Response 200 []))) = None"
    "getEnvValue (ascii ''ATLAS_API_URL'') (viteEnv (example_env (Response 200 [])))
             (nodeEnv (example_env (Response 200 []))) = None"
    "getEnvValue (ascii ''ATLASCLOUD_API_URL'') (viteEnv (example_env (Response 200 [])))
             (nodeEnv (example_env (Response 200 []))) = None"
    by (simp_all add: getEnvValue_def or_str_def truthy_str_def example_env_def ascii_def)
  have n: "getEnvValue k (viteEnv keyless_env) (nodeEnv keyless_env) = None" for k
    by (simp add: getEnvValue_def or_str_def truthy_str_def keyless_env_def)
  note a = credential_and_url_resolution [where env = "example_env (Response 200 [])"
      and rt = example_runtime and userText = "ascii ''dentist tomorrow''"]
  note b = credential_and_url_resolution [where env = keyless_env
      and rt = example_runtime and userText = "ascii ''dentist tomorrow''"]
  have 1: "resolve_apiKey (viteEnv (example_env (Response 200 [])))
             (nodeEnv (example_env (Response 200 []))) = ascii ''secret''"
    using a [THEN conjunct2, THEN conjunct1] by (simp add: l)
  have 2: "resolve_url (viteEnv (example_env (Response 200 [])))
             (nodeEnv (example_env (Response 200 []))) = default_url"
    using a [THEN conjunct2, THEN conjunct2, THEN conjunct1] by (simp add: l)
  have 3: "sendToAtlas example_runtime keyless_env (ascii ''dentist tomorrow'')
             = (Inl (Error msg_no_key), [])"
    using b [THEN conjunct2, THEN conjunct2, THEN conjunct2, THEN conjunct1] by (simp add: n)
  from l(1) l(3) 1 2 3 show ?thesis by simp
qed

text \<open>
  Claim C8. The user message of the request holds the first 2000 code units of the user
  text: the text itself when it has at most 2000, and never more than 2000. Cutting the
  text raises nothing: with a credential the client hands exactly one request to the
  network, whatever the length of the text, and its result is what the response gives.
\<close>

theorem user_text_truncated_to_2000:
  "map msg_content (messages (req_body (build_request url apiKey userText)))
     = [systemPrompt, take 2000 userText]
   \<and> length (take 2000 userText) \<le> 2000
   \<and> (length userText \<le> 2000 \<longrightarrow> take 2000 userText = userText)
   \<and> (2000 < length userText \<longrightarrow> length (take 2000 userText) = 2000)
   \<and> (resolve_apiKey (viteEnv env) (nodeEnv env) \<noteq> [] \<longrightarrow>
        sendToAtlas rt env userText =
          (handle_response rt
             (fetch env (build_request (resolve_url (viteEnv env) (nodeEnv env))
                (resolve_apiKey (viteEnv env) (nodeEnv env)) userText)),
           [build_request (resolve_url (viteEnv env) (nodeEnv env))
              (resolve_apiKey (viteEnv env) (nodeEnv env)) userText]))"
  by (simp add: build_request_def sendToAtlas_def Let_def)

text \<open>A text of 2001 letters a, and a short one.\<close>

theorem user_text_truncated_to_2000_witness:
  "map msg_content (messages (req_body (build_request default_url (ascii ''secret'')
      (replicate 2001 0x61))))
     = [systemPrompt, replicate 2000 0x61]
   \<and> map msg_content (messages (req_body (build_request default_url (ascii ''secret'')
      (ascii ''dentist tomorrow''))))
     = [systemPrompt, ascii ''dentist tomorrow'']
   \<and> snd (sendToAtlas example_runtime (example_env (Response 200 empty_reply_text))
          (replicate 2001 0x61))
     = [build_request default_url (ascii ''secret'') (replicate 2001 0x61)]"
proof -
  have key: "resolve_apiKey (viteEnv (example_env a)) (nodeEnv (example_env a)) = ascii ''secret''"
    for a
    by (simp add: example_env_def resolve_apiKey_def getEnvValue_def or_str_def truthy_str_def
        nullish_def ascii_def)
  have url: "resolve_url (viteEnv (example_env a)) (nodeEnv (example_env a)) = default_url"
    for a
    by (simp add: example_env_def resolve_url_def getEnvValue_def or_str_def truthy_str_def
        nullish_def ascii_def default_url_def)
  have ne: "ascii ''secret'' \<noteq> []"
    by (simp add: ascii_def)
  have short: "length (ascii ''dentist tomorrow'') \<le> 2000"
    by (simp add: ascii_def)
  note a = user_text_truncated_to_2000 [where userText = "replicate 2001 0x61"
      and url = default_url and apiKey = "ascii ''secret''" and rt = example_runtime
      and env = "example_env (Response 200 empty_reply_text)"]
  note b = user_text_truncated_to_2000 [where userText = "ascii ''dentist tomorrow''"
      and url = default_url and apiKey = "ascii ''secret''" and rt = example_runtime
      and env = "example_env (Response 200 empty_reply_text)"]
  have 1: "map msg_content (messages (req_body (build_request default_url (ascii ''secret'')
      (replicate 2001 0x61)))) = [systemPrompt, replicate 2000 0x61]"
    using a [THEN conjunct1] by simp
  have 2: "map msg_content (messages (req_body (build_request default_url (ascii ''secret'')
      (ascii ''dentist tomorrow'')))) = [systemPrompt, ascii ''dentist tomorrow'']"
    using b [THEN conjunct1] short by simp
  have 3: "snd (sendToAtlas example_runtime (example_env (Response 200 empty_reply_text))
          (replicate 2001 0x61))
     = [build_request default_url (ascii ''secret'') (replicate 2001 0x61)]"
    using a [THEN conjunct2, THEN conjunct2, THEN conjunct2, THEN conjunct2] ne
    by (simp add: key url)
  from 1 2 3 show ?thesis by simp
qed




end
